theory Spec2Isabelle
  imports Main "HOL-Library.Code_Target_Nat"
begin

section \<open>Type values (types.ts, lines 3-55)\<close>

text \<open>
  A \<open>CType\<close> of the source is a string or an object of class \<open>ArrayType\<close>,
  \<open>StructType\<close> or \<open>DictType\<close>. Array and struct objects are mutated after
  construction and are shared between tables, so they live in a store and a type value
  holds their address. A \<open>DictType\<close> object is never mutated and is kept as a value.
  \<open>Null\<close> stands for the JavaScript values \<open>null\<close> and \<open>undefined\<close>, which the
  source stores and returns where a \<open>CType\<close> is expected. \<open>Inherited m\<close> stands
  for the value that a plain object yields under a name \<open>m\<close> which it does not hold
  itself but inherits from \<open>Object.prototype\<close> (a function such as \<open>constructor\<close>
  or \<open>toString\<close>): a value that is neither a \<open>CType\<close> nor \<open>null\<close> nor
  \<open>undefined\<close>, and that has no \<open>getText\<close>.
\<close>

datatype error = UnrecognizedTypeSource | TypeError | RangeError

datatype ctype =
    Str string
  | ArrayRef nat
  | StructRef nat
  | DictType ctype
  | Null
  | Inherited string

definition UniversalVarType :: string where "UniversalVarType = ''struct js_var *''"
definition PointerVarType :: string where "PointerVarType = ''void *''"
definition StringVarType :: string where "StringVarType = ''const char *''"
definition NumberVarType :: string where "NumberVarType = ''int16_t''"
definition BooleanVarType :: string where "BooleanVarType = ''uint8_t''"

record ArrayType =
  elementType :: ctype
  capacity :: nat
  isDynamicArray :: bool

record StructType =
  structName :: string
  properties :: "(string \<times> ctype) list"

text \<open>Errors are values; \<open>ebind\<close> sequences two fallible steps.\<close>

definition ebind :: "error + 'a \<Rightarrow> ('a \<Rightarrow> error + 'b) \<Rightarrow> error + 'b" where
  "ebind m f = (case m of Inl e \<Rightarrow> Inl e | Inr x \<Rightarrow> f x)"

text \<open>The store: an address is an index into the list of allocated objects.\<close>

definition deref :: "'a list \<Rightarrow> nat \<Rightarrow> 'a option" where
  "deref h a = (if a < length h then Some (h ! a) else None)"

text \<open>JavaScript's conversion of a non-negative integer to its decimal string.\<close>

definition digit :: "nat \<Rightarrow> char" where
  "digit d = ''0123456789'' ! d"

fun showNat :: "nat \<Rightarrow> string" where
  "showNat n = (if n < 10 then [digit n] else showNat (n div 10) @ [digit (n mod 10)])"

declare showNat.simps [simp del]

text \<open>
  \<open>ArrayType.getText\<close> and \<open>DictType.getText\<close> recurse into the element type. The
  first argument bounds the number of array objects entered: a chain of arrays that
  does not close a cycle enters each array of the store at most once, and following a
  cycle is the source's unbounded recursion, which ends in a \<open>RangeError\<close>. Calling
  \<open>getText\<close> on \<open>null\<close> or \<open>undefined\<close> is a \<open>TypeError\<close>.
\<close>

fun getTextB :: "nat \<Rightarrow> ArrayType list \<Rightarrow> StructType list \<Rightarrow> ctype \<Rightarrow> error + string" where
  "getTextB n ah sh (Str s) = Inr s"
| "getTextB n ah sh Null = Inl TypeError"
| "getTextB n ah sh (StructRef a) =
     (case deref sh a of None \<Rightarrow> Inl TypeError | Some s \<Rightarrow> Inr (structName s))"
| "getTextB n ah sh (DictType e) =
     ebind (getTextB n ah sh e) (\<lambda>t. Inr (''DICT('' @ t @ '')''))"
| "getTextB 0 ah sh (ArrayRef a) = Inl RangeError"
| "getTextB (Suc n) ah sh (ArrayRef a) =
     (case deref ah a of
        None \<Rightarrow> Inl TypeError
      | Some arr \<Rightarrow>
          ebind (getTextB n ah sh (elementType arr)) (\<lambda>t.
            if isDynamicArray arr then Inr (''ARRAY('' @ t @ '')'')
            else Inr (''static '' @ t @ '' {var}['' @ showNat (capacity arr) @ '']'')))"
| "getTextB n ah sh (Inherited m) = Inl TypeError"

definition getText :: "ArrayType list \<Rightarrow> StructType list \<Rightarrow> ctype \<Rightarrow> error + string" where
  "getText ah sh t = getTextB (length ah) ah sh t"

section \<open>Dictionaries\<close>

text \<open>
  A JavaScript object used as a dictionary with string keys enumerates first its keys
  that are array indices (the decimal text, without leading zeros, of an integer from
  0 to \<open>2^32 - 2\<close>) in ascending numeric order, and then its other keys in insertion
  order; an assignment to an existing key keeps the key's place. A list of pairs holds
  the entries in the order of enumeration. A dictionary with integer keys enumerates
  them in ascending order. (An assignment to the key \<open>__proto__\<close> would set the
  prototype of the object and is not told apart from other assignments here.)
\<close>

definition digitValue :: "char \<Rightarrow> nat" where
  "digitValue c = length (takeWhile (\<lambda>d. d \<noteq> c) ''0123456789'')"

definition readNat :: "string \<Rightarrow> nat" where
  "readNat s = foldl (\<lambda>n c. 10 * n + digitValue c) 0 s"

fun isArrayIndex :: "string \<Rightarrow> bool" where
  "isArrayIndex [] = False"
| "isArrayIndex (c # cs) =
     (if c = CHR ''0'' then cs = []
      else c \<in> set ''123456789'' \<and> list_all (\<lambda>d. d \<in> set ''0123456789'') cs
           \<and> readNat (c # cs) \<le> 4294967294)"

text \<open>An existing key keeps its place; a new key that is no array index goes last.\<close>

fun dupd :: "'k \<Rightarrow> 'v \<Rightarrow> ('k \<times> 'v) list \<Rightarrow> ('k \<times> 'v) list" where
  "dupd k v [] = [(k, v)]"
| "dupd k v ((k', v') # kvs) = (if k = k' then (k, v) # kvs else (k', v') # dupd k v kvs)"

text \<open>A new key that is an array index goes after the smaller array indices.\<close>

fun insertIndex :: "string \<Rightarrow> 'v \<Rightarrow> (string \<times> 'v) list \<Rightarrow> (string \<times> 'v) list" where
  "insertIndex k v [] = [(k, v)]"
| "insertIndex k v ((k', v') # kvs) =
     (if isArrayIndex k' \<and> readNat k' < readNat k then (k', v') # insertIndex k v kvs
      else (k, v) # (k', v') # kvs)"

definition dset :: "string \<Rightarrow> 'v \<Rightarrow> (string \<times> 'v) list \<Rightarrow> (string \<times> 'v) list" where
  "dset k v kvs =
     (if isArrayIndex k \<and> map_of kvs k = None then insertIndex k v kvs else dupd k v kvs)"

lemma dset_plain [simp]: "\<not> isArrayIndex k \<Longrightarrow> dset k v kvs = dupd k v kvs"
  by (simp add: dset_def)

lemma dset_Nil [simp]: "dset k v [] = [(k, v)]"
  by (simp add: dset_def)

fun nset :: "nat \<Rightarrow> 'v \<Rightarrow> (nat \<times> 'v) list \<Rightarrow> (nat \<times> 'v) list" where
  "nset k v [] = [(k, v)]"
| "nset k v ((k', v') # kvs) =
     (if k = k' then (k, v) # kvs
      else if k < k' then (k, v) # (k', v') # kvs
      else (k', v') # nset k v kvs)"

definition ddelete :: "'k \<Rightarrow> ('k \<times> 'v) list \<Rightarrow> ('k \<times> 'v) list" where
  "ddelete k kvs = filter (\<lambda>kv. fst kv \<noteq> k) kvs"

definition keys :: "('k \<times> 'v) list \<Rightarrow> 'k list" where
  "keys kvs = map fst kvs"

section \<open>The front-end's types\<close>

text \<open>
  What the source reads of a \<open>ts.Type\<close>: its flags, compared with \<open>Void\<close>,
  \<open>String\<close>, \<open>Number\<close>, \<open>Boolean\<close> and \<open>Any\<close> and tested for an \<open>ObjectType\<close>
  bit, and its properties. Of a property the source reads the name, the text of the
  declaration's name, the property's own type and, when the declaration is a property
  assignment whose initializer is an array literal, that literal: its position, its
  number of elements and the type of its first element.
\<close>

datatype tstype =
    TsVoid | TsString | TsNumber | TsBoolean | TsAny
  | TsObject "tsprop list"
  | TsOther
and tsprop =
    TsProp (propName: string) (propDeclName: string) (propType: tstype)
           (propArrayInit: "(nat \<times> nat \<times> tstype) option")

fun getProperties :: "tstype \<Rightarrow> tsprop list" where
  "getProperties (TsObject ps) = ps"
| "getProperties _ = []"

section \<open>The front-end's syntax trees\<close>

text \<open>
  Of a node the source reads its position, its text, the type checker's answer to
  \<open>getTypeAtLocation\<close> and the position of the value declaration of the symbol that
  \<open>getSymbolAtLocation\<close> resolves it to (\<open>None\<close> when it resolves to no symbol).
  The node kinds that the source tests are constructors, with the fields it reads of
  each; \<open>OtherNode\<close> is a node of any other kind, with its children.
  A function declaration lists the children before its parameters, its parameters and
  the children after them. The source follows \<open>parent\<close> links; the model passes
  the list of ancestors, nearest first, along with the node.
\<close>

record ninfo =
  npos :: nat
  ntext :: string
  ntype :: tstype
  nsymbol :: "nat option"

datatype node =
    Unknown ninfo
  | NumericLiteral ninfo
  | TrueKeyword ninfo
  | FalseKeyword ninfo
  | StringLiteral ninfo
  | Identifier ninfo
  | ElementAccessExpression ninfo node node
  | PropertyAccessExpression ninfo node node
  | CallExpression ninfo node "node list"
  | ArrayLiteralExpression ninfo "node list"
  | ObjectLiteralExpression ninfo "node list"
  | FunctionDeclaration ninfo "node list" "node list" "node list"
  | ReturnStatement ninfo "node option"
  | VariableDeclaration ninfo node "node option"
  | VariableDeclarationList ninfo "node list"
  | Parameter ninfo node "node option"
  | BinaryExpression ninfo node node node
  | ForOfStatement ninfo node node node
  | EqualsToken ninfo
  | OtherNode ninfo "node list"

fun info :: "node \<Rightarrow> ninfo" where
  "info (Unknown i) = i"
| "info (NumericLiteral i) = i"
| "info (TrueKeyword i) = i"
| "info (FalseKeyword i) = i"
| "info (StringLiteral i) = i"
| "info (Identifier i) = i"
| "info (ElementAccessExpression i e a) = i"
| "info (PropertyAccessExpression i e n) = i"
| "info (CallExpression i e as) = i"
| "info (ArrayLiteralExpression i es) = i"
| "info (ObjectLiteralExpression i ps) = i"
| "info (FunctionDeclaration i bs ps cs) = i"
| "info (ReturnStatement i e) = i"
| "info (VariableDeclaration i n e) = i"
| "info (VariableDeclarationList i ds) = i"
| "info (Parameter i n e) = i"
| "info (BinaryExpression i l op r) = i"
| "info (ForOfStatement i ini e s) = i"
| "info (EqualsToken i) = i"
| "info (OtherNode i cs) = i"

definition pos :: "node \<Rightarrow> nat" where "pos n = npos (info n)"
definition nodeText :: "node \<Rightarrow> string" where "nodeText n = ntext (info n)"
definition getTypeAtLocation :: "node \<Rightarrow> tstype" where "getTypeAtLocation n = ntype (info n)"
definition getSymbolAtLocation :: "node \<Rightarrow> nat option" where "getSymbolAtLocation n = nsymbol (info n)"

fun getChildren :: "node \<Rightarrow> node list" where
  "getChildren (ElementAccessExpression i e a) = [e, a]"
| "getChildren (PropertyAccessExpression i e n) = [e, n]"
| "getChildren (CallExpression i e as) = e # as"
| "getChildren (ArrayLiteralExpression i es) = es"
| "getChildren (ObjectLiteralExpression i ps) = ps"
| "getChildren (FunctionDeclaration i bs ps cs) = bs @ ps @ cs"
| "getChildren (ReturnStatement i e) = (case e of None \<Rightarrow> [] | Some x \<Rightarrow> [x])"
| "getChildren (VariableDeclaration i n e) = n # (case e of None \<Rightarrow> [] | Some x \<Rightarrow> [x])"
| "getChildren (VariableDeclarationList i ds) = ds"
| "getChildren (Parameter i n e) = n # (case e of None \<Rightarrow> [] | Some x \<Rightarrow> [x])"
| "getChildren (BinaryExpression i l op r) = [l, op, r]"
| "getChildren (ForOfStatement i ini e s) = [ini, e, s]"
| "getChildren (OtherNode i cs) = cs"
| "getChildren _ = []"

fun isIdentifier :: "node \<Rightarrow> bool" where
  "isIdentifier (Identifier i) = True"
| "isIdentifier _ = False"

fun isFunctionDeclaration :: "node \<Rightarrow> bool" where
  "isFunctionDeclaration (FunctionDeclaration i bs ps cs) = True"
| "isFunctionDeclaration _ = False"

section \<open>The engine's state (types.ts, lines 57-105)\<close>

record VariableInfo =
  name :: string
  type :: ctype
  references :: "nat list"
  declarationPos :: nat
  requiresAllocation :: bool

text \<open>
  \<open>element\<close> is a string or a boolean in the source. \<open>associatedProperty\<close> starts
  undefined (\<open>None\<close>).
\<close>

datatype element = ElementB bool | ElementS string

record TypePromise =
  resolved :: bool
  associatedProperty :: "string option"
  arrayOf :: bool
  associatedNode :: node
  element :: element

definition newTypePromise :: "node \<Rightarrow> element \<Rightarrow> TypePromise" where
  "newTypePromise n e =
     \<lparr>resolved = False, associatedProperty = None, arrayOf = False,
      associatedNode = n, element = e\<rparr>"

text \<open>A value that is a \<open>CType\<close> or a \<open>TypePromise\<close>.\<close>

datatype evidence = T ctype | P TypePromise

text \<open>
  The usage flags \<open>isDynamicArray\<close> and \<open>isDict\<close> of a \<open>VariableData\<close> start
  undefined and the parameter fields start undefined; undefined flags are \<open>False\<close>
  here (the source only tests them for truth) and undefined parameter fields \<open>None\<close>.
\<close>

record VariableData =
  tsType :: tstype
  assignmentTypes :: "(string \<times> ctype) list"
  typePromises :: "TypePromise list"
  addedProperties :: "(string \<times> ctype) list"
  parameterIndex :: "nat option"
  parameterFuncDeclPos :: "nat option"
  objLiteralAssigned :: bool
  varIsDynamicArray :: bool
  isDict :: bool

text \<open>
  The key of the per-function tables is a function declaration's position plus one, or
  the string \<open>'main'\<close> outside every function.
\<close>

datatype scopeId = FuncScope nat | MainScope

fun sset :: "scopeId \<Rightarrow> 'v \<Rightarrow> (scopeId \<times> 'v) list \<Rightarrow> (scopeId \<times> 'v) list" where
  "sset k v [] = [(k, v)]"
| "sset k v ((k', v') # kvs) =
     (if k = k' then (k, v) # kvs
      else if (case (k, k') of (FuncScope a, FuncScope b) \<Rightarrow> a < b
                             | (FuncScope a, MainScope) \<Rightarrow> True
                             | _ \<Rightarrow> False)
           then (k, v) # (k', v') # kvs
      else (k', v') # sset k v kvs)"

record TypeHelper =
  variables :: "(nat \<times> VariableInfo) list"
  userStructs :: "(string \<times> nat) list"
  variablesData :: "(nat \<times> VariableData) list"
  functionCallsData :: "(nat \<times> evidence list) list"
  functionReturnsData :: "(scopeId \<times> evidence) list"
  functionReturnTypes :: "(scopeId \<times> ctype) list"
  functionPrototypes :: "(nat \<times> nat) list"
  arrayLiteralsTypes :: "(nat \<times> ctype) list"
  objectLiteralsTypes :: "(nat \<times> ctype) list"
  temporaryVariables :: "(string \<times> string list) list"
  arrays :: "ArrayType list"
  structs :: "StructType list"

definition emptyTypeHelper :: TypeHelper where
  "emptyTypeHelper =
     \<lparr>variables = [], userStructs = [], variablesData = [], functionCallsData = [],
      functionReturnsData = [], functionReturnTypes = [], functionPrototypes = [],
      arrayLiteralsTypes = [], objectLiteralsTypes = [], temporaryVariables = [],
      arrays = [], structs = []\<rparr>"

text \<open>
  A table lookup that yields \<open>undefined\<close> for a missing key: the lookup in an array
  or in a table whose keys are numbers or \<open>'main'\<close>, and the lookup of a key that the
  table is known to hold.
\<close>

definition lookupT :: "('k \<times> ctype) list \<Rightarrow> 'k \<Rightarrow> ctype" where
  "lookupT kvs k = (case map_of kvs k of None \<Rightarrow> Null | Some t \<Rightarrow> t)"

text \<open>
  The lookup of any string in a table that is a plain object (\<open>{}\<close>): a name that
  the object does not hold is looked up in \<open>Object.prototype\<close>, whose members are
  listed.
\<close>

definition objectPrototypeMembers :: "string list" where
  "objectPrototypeMembers =
     [''constructor'', ''hasOwnProperty'', ''isPrototypeOf'', ''propertyIsEnumerable'',
      ''toLocaleString'', ''toString'', ''valueOf'', ''__proto__'', ''__defineGetter__'',
      ''__defineSetter__'', ''__lookupGetter__'', ''__lookupSetter__'']"

definition lookupP :: "(string \<times> ctype) list \<Rightarrow> string \<Rightarrow> ctype" where
  "lookupP kvs k =
     (case map_of kvs k of
        Some t \<Rightarrow> t
      | None \<Rightarrow> if k \<in> set objectPrototypeMembers then Inherited k else Null)"

definition typeText :: "TypeHelper \<Rightarrow> ctype \<Rightarrow> error + string" where
  "typeText st t = getText (arrays st) (structs st) t"

section \<open>Record registration (types.ts, lines 705-766)\<close>

text \<open>
  \<open>String.prototype.indexOf(p) > -1\<close>, \<open>replace(/^static /, '')\<close> and \<open>replace(p, r)\<close>
  with a string pattern \<open>p\<close> and a string \<open>r\<close>, which replaces the first occurrence
  of \<open>p\<close>. In the replacement text \<open>r\<close> the pair \<open>$$\<close> stands for a dollar sign,
  \<open>$&\<close> for the matched text, \<open>$\<close> with a backquote for the text before the match
  and \<open>$\<close> with an apostrophe for the text after it; a string pattern has no
  captures, so a dollar sign before anything else stands for itself.
\<close>

fun startsWith :: "string \<Rightarrow> string \<Rightarrow> bool" where
  "startsWith [] s = True"
| "startsWith (p # ps) [] = False"
| "startsWith (p # ps) (c # cs) = (p = c \<and> startsWith ps cs)"

fun containsStr :: "string \<Rightarrow> string \<Rightarrow> bool" where
  "containsStr p [] = (p = [])"
| "containsStr p (c # cs) = (startsWith p (c # cs) \<or> containsStr p cs)"

fun substitution :: "string \<Rightarrow> string \<Rightarrow> string \<Rightarrow> string \<Rightarrow> string" where
  "substitution matched pre post [] = []"
| "substitution matched pre post [c] = [c]"
| "substitution matched pre post (c # d # r) =
     (if c = CHR ''$'' \<and> d = CHR ''$'' then CHR ''$'' # substitution matched pre post r
      else if c = CHR ''$'' \<and> d = CHR ''&'' then matched @ substitution matched pre post r
      else if c = CHR ''$'' \<and> d = CHR 0x60 then pre @ substitution matched pre post r
      else if c = CHR ''$'' \<and> d = CHR 0x27 then post @ substitution matched pre post r
      else c # substitution matched pre post (d # r))"

fun replaceFrom :: "string \<Rightarrow> string \<Rightarrow> string \<Rightarrow> string \<Rightarrow> string" where
  "replaceFrom p r pre [] = (if p = [] then pre @ substitution p pre [] r else pre)"
| "replaceFrom p r pre (c # cs) =
     (if startsWith p (c # cs)
      then pre @ substitution p pre (drop (length p) (c # cs)) r
             @ drop (length p) (c # cs)
      else replaceFrom p r (pre @ [c]) cs)"

definition replaceFirst :: "string \<Rightarrow> string \<Rightarrow> string \<Rightarrow> string" where
  "replaceFirst p r s = replaceFrom p r [] s"

definition removeStatic :: "string \<Rightarrow> string" where
  "removeStatic s = (if startsWith ''static '' s then drop 7 s else s)"

definition newline :: string where
  "newline = [CHR 0x0A]"

fun propertyLine :: "TypeHelper \<Rightarrow> string \<times> ctype \<Rightarrow> error + string" where
  "propertyLine st (pn, Str pt) =
     Inr (''    '' @ pt @ '' '' @ pn @ '';'' @ newline)"
| "propertyLine st (pn, ArrayRef a) =
     ebind (typeText st (ArrayRef a)) (\<lambda>propTypeText.
       if containsStr ''{var}'' propTypeText
       then Inr (''    '' @ replaceFirst ''{var}'' pn (removeStatic propTypeText)
                 @ '';'' @ newline)
       else Inr (''    '' @ propTypeText @ '' '' @ pn @ '';'' @ newline))"
| "propertyLine st (pn, pt) =
     ebind (typeText st pt) (\<lambda>t.
       Inr (''    '' @ t @ '' '' @ pn @ '';'' @ newline))"

fun propertyLines :: "TypeHelper \<Rightarrow> (string \<times> ctype) list \<Rightarrow> error + string" where
  "propertyLines st [] = Inr []"
| "propertyLines st (p # ps) =
     ebind (propertyLine st p) (\<lambda>l. ebind (propertyLines st ps) (\<lambda>ls. Inr (l @ ls)))"

definition getStructureBodyString :: "TypeHelper \<Rightarrow> (string \<times> ctype) list \<Rightarrow> error + string" where
  "getStructureBodyString st props =
     ebind (propertyLines st props) (\<lambda>ls. Inr (''{'' @ newline @ ls @ ''};'' @ newline))"

lemma digit_inj: "a < 10 \<Longrightarrow> b < 10 \<Longrightarrow> digit a = digit b \<Longrightarrow> a = b"
proof -
  assume a: "a < 10" and b: "b < 10" and e: "digit a = digit b"
  have d: "distinct ''0123456789''" by simp
  from a b e show "a = b"
    unfolding digit_def using nth_eq_iff_index_eq[OF d, of a b] by simp
qed

lemma showNat_ne: "showNat n \<noteq> []"
  by (subst showNat.simps) simp

lemma showNat_inj: "showNat n = showNat m \<Longrightarrow> n = m"
proof (induction n arbitrary: m rule: showNat.induct)
  case (1 n)
  show ?case
  proof (cases "n < 10")
    case True
    show ?thesis
    proof (cases "m < 10")
      case mt: True
      from 1(2) True mt have "digit n = digit m"
        by (simp add: showNat.simps[of n] showNat.simps[of m])
      with True mt show ?thesis by (simp add: digit_inj)
    next
      case False
      with 1(2) True have "[digit n] = showNat (m div 10) @ [digit (m mod 10)]"
        by (simp add: showNat.simps[of n] showNat.simps[of m])
      then show ?thesis using showNat_ne[of "m div 10"] by simp
    qed
  next
    case False
    show ?thesis
    proof (cases "m < 10")
      case True
      with 1(2) False have "showNat (n div 10) @ [digit (n mod 10)] = [digit m]"
        by (simp add: showNat.simps[of n] showNat.simps[of m])
      then show ?thesis using showNat_ne[of "n div 10"] by simp
    next
      case mf: False
      with 1(2) False
      have "showNat (n div 10) @ [digit (n mod 10)] = showNat (m div 10) @ [digit (m mod 10)]"
        by (simp add: showNat.simps[of n] showNat.simps[of m])
      then have "showNat (n div 10) = showNat (m div 10)"
        and d: "digit (n mod 10) = digit (m mod 10)"
        by simp_all
      with 1(1)[OF False] have "n div 10 = m div 10" by simp
      moreover from d have "n mod 10 = m mod 10" by (intro digit_inj) simp_all
      ultimately show ?thesis by (metis div_mult_mod_eq)
    qed
  qed
qed

text \<open>
  The loop \<open>while (this.userStructs[varName + "_" + i + "_t"] != null) i++\<close>. It
  ends because the table is finite and the names of different \<open>i\<close> differ.
\<close>

function nameLoop :: "(string \<times> nat) list \<Rightarrow> string \<Rightarrow> nat \<Rightarrow> nat" where
  "nameLoop us v i =
     (if map_of us (v @ ''_'' @ showNat i @ ''_t'') \<noteq> None then nameLoop us v (Suc i) else i)"
  by pat_completeness auto
termination
proof (relation "measure (\<lambda>(us, v, i).
         card {k \<in> fst ` set us. \<exists>j\<ge>i. k = v @ ''_'' @ showNat j @ ''_t''})")
  show "wf (measure (\<lambda>(us, v, i).
         card {k \<in> fst ` set us. \<exists>j\<ge>i. k = v @ ''_'' @ showNat j @ ''_t''}))"
    by simp
next
  fix us :: "(string \<times> nat) list" and v i
  assume a: "map_of us (v @ ''_'' @ showNat i @ ''_t'') \<noteq> None"
  let ?A = "\<lambda>i. {k \<in> fst ` set us. \<exists>j\<ge>i. k = v @ ''_'' @ showNat j @ ''_t''}"
  from a have m: "v @ ''_'' @ showNat i @ ''_t'' \<in> fst ` set us"
    by (metis map_of_eq_None_iff)
  then have "v @ ''_'' @ showNat i @ ''_t'' \<in> ?A i" by auto
  moreover have "v @ ''_'' @ showNat i @ ''_t'' \<notin> ?A (Suc i)"
    using showNat_inj by fastforce
  moreover have "?A (Suc i) \<subseteq> ?A i" by auto (metis Suc_leD)
  ultimately have "?A (Suc i) \<subset> ?A i" by blast
  moreover have "finite (?A i)" by simp
  ultimately have "card (?A (Suc i)) < card (?A i)" by (rule psubset_card_mono[rotated])
  then show "((us, v, Suc i), (us, v, i)) \<in> measure (\<lambda>(us, v, i).
         card {k \<in> fst ` set us. \<exists>j\<ge>i. k = v @ ''_'' @ showNat j @ ''_t''})"
    by simp
qed

declare nameLoop.simps [simp del]

text \<open>
  Lines 706-717: the name a new record would get, chosen before the properties are
  converted. \<open>ident\<close> is the text of the naming identifier, when there is one.
  (The table is read under names that end in \<open>_t\<close>; no member of
  \<open>Object.prototype\<close> has such a name, so a name the table does not hold reads as
  \<open>undefined\<close>.)
\<close>

definition chooseStructName :: "TypeHelper \<Rightarrow> string option \<Rightarrow> string" where
  "chooseStructName st ident =
     (case ident of
        None \<Rightarrow> ''struct_'' @ showNat (length (userStructs st)) @ ''_t''
      | Some varName \<Rightarrow>
          if varName = [] then ''struct_'' @ showNat (length (userStructs st)) @ ''_t''
          else if map_of (userStructs st) (varName @ ''_t'') = None then varName @ ''_t''
          else varName @ ''_'' @ showNat (nameLoop (userStructs st) varName 2) @ ''_t'')"

text \<open>
  Lines 732-741: the first registered record, in registration order, whose body text
  equals \<open>userStructCode\<close>.
\<close>

fun findStructure :: "TypeHelper \<Rightarrow> string \<Rightarrow> (string \<times> nat) list \<Rightarrow> error + string option" where
  "findStructure st userStructCode [] = Inr None"
| "findStructure st userStructCode ((s, a) # us) =
     (case deref (structs st) a of
        None \<Rightarrow> Inl TypeError
      | Some obj \<Rightarrow>
          ebind (getStructureBodyString st (properties obj)) (\<lambda>body.
            if body = userStructCode then Inr (Some s)
            else findStructure st userStructCode us))"

text \<open>Lines 730-745: look the shape up, register it when it is new, return the record.\<close>

definition registerStructure ::
  "string \<Rightarrow> (string \<times> ctype) list \<Rightarrow> TypeHelper \<Rightarrow> error + (ctype \<times> TypeHelper)" where
  "registerStructure newName userStructInfo st =
     ebind (getStructureBodyString st userStructInfo) (\<lambda>userStructCode.
       ebind (if userStructInfo \<noteq> [] then findStructure st userStructCode (userStructs st)
              else Inr None) (\<lambda>found.
         case found of
           Some s \<Rightarrow>
             Inr (case map_of (userStructs st) s of None \<Rightarrow> Null | Some a \<Rightarrow> StructRef a, st)
         | None \<Rightarrow>
             Inr (StructRef (length (structs st)),
                  st\<lparr>structs := structs st @
                        [\<lparr>structName = ''struct '' @ newName @ '' *'',
                          properties = userStructInfo\<rparr>],
                      userStructs := dset newName (length (structs st)) (userStructs st)\<rparr>)))"

section \<open>Type conversion (types.ts, lines 258-278, 705-728, 768-779)\<close>

text \<open>
  \<open>convertType\<close>, \<open>generateStructure\<close> with its loop over the properties
  (\<open>structInfo\<close>) and \<open>determineArrayType\<close> call each other. An array literal is
  given by its position, its number of elements and the type of its first element.
\<close>

function convertType :: "tstype \<Rightarrow> string option \<Rightarrow> TypeHelper \<Rightarrow> error + (ctype \<times> TypeHelper)"
  and generateStructure :: "tstype \<Rightarrow> string option \<Rightarrow> TypeHelper \<Rightarrow> error + (ctype \<times> TypeHelper)"
  and structInfo :: "tsprop list \<Rightarrow> (string \<times> ctype) list \<Rightarrow> TypeHelper
        \<Rightarrow> error + ((string \<times> ctype) list \<times> TypeHelper)"
  and determineArrayType :: "nat \<times> nat \<times> tstype \<Rightarrow> TypeHelper \<Rightarrow> error + (ctype \<times> TypeHelper)"
where
  "convertType tsT ident st =
     (case tsT of
        TsVoid \<Rightarrow> Inr (Str ''void'', st)
      | TsString \<Rightarrow> Inr (Str StringVarType, st)
      | TsNumber \<Rightarrow> Inr (Str NumberVarType, st)
      | TsBoolean \<Rightarrow> Inr (Str BooleanVarType, st)
      | TsObject ps \<Rightarrow>
          if ps \<noteq> [] then generateStructure tsT ident st
          else Inr (Str UniversalVarType, st)
      | TsAny \<Rightarrow> Inr (Str PointerVarType, st)
      | TsOther \<Rightarrow> Inr (Str UniversalVarType, st))"
| "generateStructure tsT ident st =
     ebind (structInfo (getProperties tsT) [] st) (\<lambda>(userStructInfo, st').
       registerStructure (chooseStructName st ident) userStructInfo st')"
| "structInfo [] userStructInfo st = Inr (userStructInfo, st)"
| "structInfo (prop # props) userStructInfo st =
     ebind (convertType (propType prop) (Some (propDeclName prop)) st) (\<lambda>(pt, st1).
       ebind (if pt = Str UniversalVarType
              then (case propArrayInit prop of
                      Some arrLiteral \<Rightarrow> determineArrayType arrLiteral st1
                    | None \<Rightarrow> Inr (pt, st1))
              else Inr (pt, st1)) (\<lambda>(pt2, st2).
         structInfo props (dset (propName prop) pt2 userStructInfo) st2))"
| "determineArrayType (litPos, cap, firstType) st =
     (if cap > 0
      then ebind (convertType firstType None st) (\<lambda>(et, st1).
             Inr (ArrayRef (length (arrays st1)),
                  st1\<lparr>arrays := arrays st1 @
                         [\<lparr>elementType = et, capacity = cap, isDynamicArray = False\<rparr>],
                       arrayLiteralsTypes :=
                         nset litPos (ArrayRef (length (arrays st1))) (arrayLiteralsTypes st1)\<rparr>))
      else Inr (Str UniversalVarType, st))"
  by pat_completeness auto
termination
  apply (relation "inv_image (less_than <*lex*> less_than)
     (\<lambda>x. case x of
        Inl (Inl (ts, _, _)) \<Rightarrow> (size ts, 3::nat)
      | Inl (Inr (ts, _, _)) \<Rightarrow> (size ts, 2)
      | Inr (Inl (ps, _, _)) \<Rightarrow> (size_list size ps, 1)
      | Inr (Inr ((p, n, ty), _)) \<Rightarrow> (size ty, 4))")
     apply auto
  subgoal for ts by (cases ts) auto
  subgoal for p ps by (cases p) auto
  subgoal for p ps a aa b by (cases p) auto
  done

declare convertType.simps [simp del] generateStructure.simps [simp del]
  determineArrayType.simps [simp del]

section \<open>The symbolic node evaluator (types.ts, lines 136-230)\<close>

text \<open>JavaScript's truth test of a value that is a \<open>CType\<close>, \<open>null\<close> or \<open>undefined\<close>.\<close>

fun truthy :: "ctype \<Rightarrow> bool" where
  "truthy Null = False"
| "truthy (Str s) = (s \<noteq> [])"
| "truthy _ = True"

definition getVariableInfo :: "TypeHelper \<Rightarrow> node \<Rightarrow> VariableInfo option" where
  "getVariableInfo st ident =
     (case getSymbolAtLocation ident of
        Some declPos \<Rightarrow> map_of (variables st) declPos
      | None \<Rightarrow> None)"

text \<open>\<open>getText().slice(1, -1)\<close>: the text without its first and its last character.\<close>

definition slice1 :: "string \<Rightarrow> string" where
  "slice1 s = butlast (tl s)"

fun isArrayType :: "ctype \<Rightarrow> bool" where
  "isArrayType (ArrayRef a) = True"
| "isArrayType _ = False"

fun isStructType :: "ctype \<Rightarrow> bool" where
  "isStructType (StructRef a) = True"
| "isStructType _ = False"

fun isDictType :: "ctype \<Rightarrow> bool" where
  "isDictType (DictType e) = True"
| "isDictType _ = False"

fun isString :: "ctype \<Rightarrow> bool" where
  "isString (Str s) = True"
| "isString _ = False"

text \<open>Reading a field of an array or a property of a record through its address.\<close>

definition arrayElementType :: "TypeHelper \<Rightarrow> nat \<Rightarrow> error + ctype" where
  "arrayElementType st a =
     (case deref (arrays st) a of None \<Rightarrow> Inl TypeError | Some arr \<Rightarrow> Inr (elementType arr))"

definition structProperty :: "TypeHelper \<Rightarrow> nat \<Rightarrow> string \<Rightarrow> error + ctype" where
  "structProperty st a k =
     (case deref (structs st) a of
        None \<Rightarrow> Inl TypeError
      | Some obj \<Rightarrow> Inr (lookupP (properties obj) k))"

fun getCType :: "node \<Rightarrow> TypeHelper \<Rightarrow> error + (ctype \<times> TypeHelper)" where
  "getCType (Unknown i) st = Inr (Null, st)"
| "getCType (NumericLiteral i) st = Inr (Str NumberVarType, st)"
| "getCType (TrueKeyword i) st = Inr (Str BooleanVarType, st)"
| "getCType (FalseKeyword i) st = Inr (Str BooleanVarType, st)"
| "getCType (StringLiteral i) st = Inr (Str StringVarType, st)"
| "getCType (Identifier i) st =
     (case getVariableInfo st (Identifier i) of
        Some varInfo \<Rightarrow> Inr (if truthy (type varInfo) then type varInfo else Null, st)
      | None \<Rightarrow> Inr (Null, st))"
| "getCType (ElementAccessExpression i expression argumentExpression) st =
     ebind (getCType expression st) (\<lambda>(parentObjectType, st1).
       case parentObjectType of
         ArrayRef a \<Rightarrow> ebind (arrayElementType st1 a) (\<lambda>t. Inr (t, st1))
       | StructRef a \<Rightarrow>
           ebind (structProperty st1 a (slice1 (nodeText argumentExpression))) (\<lambda>t. Inr (t, st1))
       | DictType e \<Rightarrow> Inr (e, st1)
       | _ \<Rightarrow> Inr (Null, st1))"
| "getCType (PropertyAccessExpression i expression nm) st =
     ebind (getCType expression st) (\<lambda>(parentObjectType, st1).
       case parentObjectType of
         StructRef a \<Rightarrow> ebind (structProperty st1 a (nodeText nm)) (\<lambda>t. Inr (t, st1))
       | ArrayRef a \<Rightarrow>
           if nodeText nm = ''length'' then Inr (Str NumberVarType, st1) else Inr (Null, st1)
       | _ \<Rightarrow>
           if parentObjectType = Str StringVarType \<and> nodeText nm = ''length''
           then Inr (Str NumberVarType, st1) else Inr (Null, st1))"
| "getCType (CallExpression i (PropertyAccessExpression pi expression nm) arguments) st =
     (if nodeText nm = ''pop'' \<and> length arguments = 0
      then ebind (getCType expression st) (\<lambda>(arrType, st1).
             case arrType of
               ArrayRef a \<Rightarrow> ebind (arrayElementType st1 a) (\<lambda>t. Inr (t, st1))
             | _ \<Rightarrow> Inr (Null, st1))
      else if nodeText nm = ''push'' \<and> length arguments = 1
      then ebind (getCType expression st) (\<lambda>(arrType, st1).
             if isArrayType arrType then Inr (Str NumberVarType, st1) else Inr (Null, st1))
      else if nodeText nm = ''indexOf'' \<and> length arguments = 1
      then ebind (getCType expression st) (\<lambda>(arrType, st1).
             if truthy arrType \<and> (arrType = Str StringVarType \<or> isArrayType arrType)
             then Inr (Str NumberVarType, st1) else Inr (Null, st1))
      else Inr (Null, st))"
| "getCType (CallExpression i (Identifier ci) arguments) st =
     (case getSymbolAtLocation (Identifier ci) of
        Some declPos \<Rightarrow> Inr (lookupT (functionReturnTypes st) (FuncScope (declPos + 1)), st)
      | None \<Rightarrow> Inr (Null, st))"
| "getCType (CallExpression i callee arguments) st = Inr (Null, st)"
| "getCType (ArrayLiteralExpression i es) st = Inr (lookupT (arrayLiteralsTypes st) (npos i), st)"
| "getCType (ObjectLiteralExpression i ps) st = Inr (lookupT (objectLiteralsTypes st) (npos i), st)"
| "getCType (FunctionDeclaration i bs ps cs) st =
     (if truthy (lookupT (functionReturnTypes st) (FuncScope (npos i + 1)))
      then Inr (lookupT (functionReturnTypes st) (FuncScope (npos i + 1)), st)
      else Inr (Str ''void'', st))"
| "getCType node st =
     ebind (convertType (getTypeAtLocation node) None st) (\<lambda>(t, st1).
       if t \<noteq> Str UniversalVarType \<and> t \<noteq> Str PointerVarType then Inr (t, st1)
       else Inr (Null, st1))"

section \<open>Rendering a type source (types.ts, lines 233-254)\<close>

text \<open>
  \<open>getTypeString\<close> takes any value and tells by its fields what it is: a \<open>ts.Type\<close>
  (one that has \<open>flags\<close> and either \<open>intrinsicName\<close> or the two signature lists), a
  node, a symbol (given by the position of its value declaration), or else a value it
  does not convert: a \<open>CType\<close>, or anything else (\<open>OtherSource\<close>). The \<open>CType\<close>
  \<open>Null\<close> as a source is \<open>null\<close> or \<open>undefined\<close>, whose fields cannot be read.
\<close>

datatype typeSource =
    TsTypeSource tstype
  | NodeSource node
  | SymbolSource nat
  | CTypeSource ctype
  | OtherSource

text \<open>Lines 235-242: the source-conversion steps; \<open>None\<close> is a value that is no \<open>CType\<close>.\<close>

fun convertSource :: "typeSource \<Rightarrow> TypeHelper \<Rightarrow> error + (ctype option \<times> TypeHelper)" where
  "convertSource (TsTypeSource tsT) st =
     ebind (convertType tsT None st) (\<lambda>(t, st1). Inr (Some t, st1))"
| "convertSource (NodeSource node) st =
     ebind (getCType node st) (\<lambda>(t, st1). Inr (Some t, st1))"
| "convertSource (SymbolSource declPos) st =
     (case map_of (variables st) declPos of
        None \<Rightarrow> Inl TypeError
      | Some varInfo \<Rightarrow> Inr (Some (type varInfo), st))"
| "convertSource (CTypeSource t) st = (if t = Null then Inl TypeError else Inr (Some t, st))"
| "convertSource OtherSource st = Inr (None, st)"

text \<open>Lines 244-253.\<close>

fun renderSource :: "ctype option \<Rightarrow> TypeHelper \<Rightarrow> error + string" where
  "renderSource (Some (ArrayRef a)) st = typeText st (ArrayRef a)"
| "renderSource (Some (StructRef a)) st = typeText st (StructRef a)"
| "renderSource (Some (DictType e)) st = typeText st (DictType e)"
| "renderSource (Some (Str s)) st = Inr s"
| "renderSource _ st = Inl UnrecognizedTypeSource"

definition getTypeString :: "typeSource \<Rightarrow> TypeHelper \<Rightarrow> error + (string \<times> TypeHelper)" where
  "getTypeString source st =
     ebind (convertSource source st) (\<lambda>(v, st1).
       ebind (renderSource v st1) (\<lambda>s. Inr (s, st1)))"

section \<open>The local type deriver (types.ts, lines 682-703)\<close>

fun arrayLiteralView :: "node \<Rightarrow> nat \<times> nat \<times> tstype" where
  "arrayLiteralView (ArrayLiteralExpression i []) = (npos i, 0, TsOther)"
| "arrayLiteralView (ArrayLiteralExpression i (e # es)) =
     (npos i, Suc (length es), getTypeAtLocation e)"
| "arrayLiteralView node = (pos node, 0, TsOther)"

text \<open>The four kinds of right-hand side over which a promise is made.\<close>

fun promisable :: "node \<Rightarrow> bool" where
  "promisable (PropertyAccessExpression i e n) = True"
| "promisable (ElementAccessExpression i e a) = True"
| "promisable (Identifier i) = True"
| "promisable (CallExpression i e as) = True"
| "promisable _ = False"

fun determineType :: "node option \<Rightarrow> node option \<Rightarrow> TypeHelper \<Rightarrow> error + (evidence \<times> TypeHelper)" where
  "determineType left (Some (ObjectLiteralExpression i ps)) st =
     ebind (generateStructure (ntype i) (map_option nodeText left) st) (\<lambda>(t, st1).
       Inr (T t, st1\<lparr>objectLiteralsTypes := nset (npos i) t (objectLiteralsTypes st1)\<rparr>))"
| "determineType left (Some (ArrayLiteralExpression i es)) st =
     ebind (determineArrayType (arrayLiteralView (ArrayLiteralExpression i es)) st) (\<lambda>(t, st1).
       Inr (T t, st1))"
| "determineType left (Some right) st =
     ebind (convertType (getTypeAtLocation right) (map_option nodeText left) st) (\<lambda>(t, st1).
       if (t = Str PointerVarType \<or> t = Str UniversalVarType) \<and> promisable right
       then Inr (P (newTypePromise right (ElementB False)), st1)
       else Inr (T t, st1))"
| "determineType (Some left) None st =
     ebind (convertType (getTypeAtLocation left) (Some (nodeText left)) st) (\<lambda>(t, st1).
       Inr (T t, st1))"
| "determineType None None st = Inl TypeError"

section \<open>The evidence collector (types.ts, lines 324-545, 673-680)\<close>

definition newVariableInfo :: "string \<Rightarrow> nat \<Rightarrow> VariableInfo" where
  "newVariableInfo nm declPos =
     \<lparr>name = nm, type = Null, references = [], declarationPos = declPos,
      requiresAllocation = False\<rparr>"

definition newVariableData :: "tstype \<Rightarrow> VariableData" where
  "newVariableData tsT =
     \<lparr>tsType = tsT, assignmentTypes = [], typePromises = [], addedProperties = [],
      parameterIndex = None, parameterFuncDeclPos = None, objLiteralAssigned = False,
      varIsDynamicArray = False, isDict = False\<rparr>"

text \<open>Updating the object stored under a key, as a write through a reference does.\<close>

definition updAt :: "'k \<Rightarrow> ('v \<Rightarrow> 'v) \<Rightarrow> ('k \<times> 'v) list \<Rightarrow> ('k \<times> 'v) list" where
  "updAt k f kvs = map (\<lambda>(k', v). if k' = k then (k', f v) else (k', v)) kvs"

definition updVarData :: "nat \<Rightarrow> (VariableData \<Rightarrow> VariableData) \<Rightarrow> TypeHelper \<Rightarrow> TypeHelper" where
  "updVarData varPos f st = st\<lparr>variablesData := updAt varPos f (variablesData st)\<rparr>"

definition updVarInfo :: "nat \<Rightarrow> (VariableInfo \<Rightarrow> VariableInfo) \<Rightarrow> TypeHelper \<Rightarrow> TypeHelper" where
  "updVarInfo varPos f st = st\<lparr>variables := updAt varPos f (variables st)\<rparr>"

definition getVarData :: "TypeHelper \<Rightarrow> nat \<Rightarrow> error + VariableData" where
  "getVarData st varPos =
     (case map_of (variablesData st) varPos of None \<Rightarrow> Inl TypeError | Some d \<Rightarrow> Inr d)"

definition pushPromise :: "nat \<Rightarrow> TypePromise \<Rightarrow> TypeHelper \<Rightarrow> TypeHelper" where
  "pushPromise varPos p st =
     updVarData varPos (\<lambda>d. d\<lparr>typePromises := typePromises d @ [p]\<rparr>) st"

definition setAssignmentType :: "nat \<Rightarrow> string \<Rightarrow> ctype \<Rightarrow> TypeHelper \<Rightarrow> TypeHelper" where
  "setAssignmentType varPos k t st =
     updVarData varPos (\<lambda>d. d\<lparr>assignmentTypes := dset k t (assignmentTypes d)\<rparr>) st"

text \<open>Lines 324-330: the nearest function declaration among the node and its ancestors.\<close>

fun findParentFunction :: "node list \<Rightarrow> node option" where
  "findParentFunction [] = None"
| "findParentFunction (n # ns) = (if isFunctionDeclaration n then Some n else findParentFunction ns)"

definition scopeOf :: "node list \<Rightarrow> scopeId" where
  "scopeOf chain =
     (case findParentFunction chain of Some f \<Rightarrow> FuncScope (pos f + 1) | None \<Rightarrow> MainScope)"

text \<open>Lines 673-680.\<close>

definition addTypeToVariable ::
  "nat \<Rightarrow> node option \<Rightarrow> node option \<Rightarrow> TypeHelper \<Rightarrow> error + TypeHelper" where
  "addTypeToVariable varPos left right st =
     ebind (determineType left right st) (\<lambda>(determinedType, st1).
       case determinedType of
         P p \<Rightarrow> Inr (pushPromise varPos p st1)
       | T t \<Rightarrow>
           ebind (getTypeString (CTypeSource t) st1) (\<lambda>(k, st2).
             Inr (setAssignmentType varPos k t st2)))"

text \<open>Lines 333-350: a call expression whose callee is an identifier with a symbol.\<close>

fun replaceable :: "evidence option \<Rightarrow> bool" where
  "replaceable None = True"
| "replaceable (Some (P p)) = True"
| "replaceable (Some (T t)) = (\<not> truthy t \<or> t = Str UniversalVarType)"

text \<open>\<open>callData[i] = v\<close> on a JavaScript array: a write past the end leaves holes.\<close>

definition arraySet :: "evidence list \<Rightarrow> nat \<Rightarrow> evidence \<Rightarrow> evidence list" where
  "arraySet xs i v =
     (if i < length xs then xs[i := v]
      else xs @ replicate (i - length xs) (T Null) @ [v])"

definition callDataOf :: "TypeHelper \<Rightarrow> nat \<Rightarrow> evidence list" where
  "callDataOf st funcDeclPos =
     (case map_of (functionCallsData st) funcDeclPos of None \<Rightarrow> [] | Some cd \<Rightarrow> cd)"

fun collectArguments :: "nat \<Rightarrow> nat \<Rightarrow> node list \<Rightarrow> TypeHelper \<Rightarrow> error + TypeHelper" where
  "collectArguments funcDeclPos i [] st = Inr st"
| "collectArguments funcDeclPos i (arg # args) st =
     ebind (determineType None (Some arg) st) (\<lambda>(determinedType, st1).
       let callData = callDataOf st1 funcDeclPos;
           callData' = (if replaceable (if i < length callData then Some (callData ! i) else None)
                        then arraySet callData i determinedType else callData)
       in collectArguments funcDeclPos (Suc i) args
            (st1\<lparr>functionCallsData := nset funcDeclPos callData' (functionCallsData st1)\<rparr>))"

definition visitCall :: "ninfo \<Rightarrow> node \<Rightarrow> node list \<Rightarrow> TypeHelper \<Rightarrow> error + TypeHelper" where
  "visitCall i callee arguments st =
     (if isIdentifier callee then
        (case getSymbolAtLocation callee of
           None \<Rightarrow> Inr st
         | Some declPos \<Rightarrow>
             let funcDeclPos = declPos + 1;
                 st1 = (if funcDeclPos > npos i
                        then st\<lparr>functionPrototypes := nset funcDeclPos declPos (functionPrototypes st)\<rparr>
                        else st)
             in collectArguments funcDeclPos 0 arguments st1)
      else Inr st)"

text \<open>Lines 351-366: a return statement; \<open>chain\<close> is the statement and its ancestors.\<close>

definition visitReturn :: "node list \<Rightarrow> node option \<Rightarrow> TypeHelper \<Rightarrow> error + TypeHelper" where
  "visitReturn chain expression st =
     (let scope = scopeOf chain in
      case expression of
        Some e \<Rightarrow>
          ebind (determineType None (Some e) st) (\<lambda>(determinedType, st1).
            let determinedType' =
                  (if determinedType = T (Str UniversalVarType) \<or> determinedType = T (Str PointerVarType)
                   then P (newTypePromise e (ElementB False)) else determinedType)
            in if replaceable (map_of (functionReturnsData st1) scope)
               then Inr (st1\<lparr>functionReturnsData := sset scope determinedType' (functionReturnsData st1)\<rparr>)
               else Inr st1)
      | None \<Rightarrow>
          Inr (st\<lparr>functionReturnsData := sset scope (T (Str ''void'')) (functionReturnsData st)\<rparr>))"

text \<open>Lines 367-376: array and object literals met by the walk.\<close>

definition visitArrayLiteral :: "node \<Rightarrow> TypeHelper \<Rightarrow> error + TypeHelper" where
  "visitArrayLiteral node st =
     (if \<not> truthy (lookupT (arrayLiteralsTypes st) (pos node))
      then ebind (determineArrayType (arrayLiteralView node) st) (\<lambda>(t, st1). Inr st1)
      else Inr st)"

definition visitObjectLiteral :: "node \<Rightarrow> TypeHelper \<Rightarrow> error + TypeHelper" where
  "visitObjectLiteral node st =
     (if \<not> truthy (lookupT (objectLiteralsTypes st) (pos node))
      then ebind (generateStructure (getTypeAtLocation node) None st) (\<lambda>(t, st1).
             Inr (st1\<lparr>objectLiteralsTypes := nset (pos node) t (objectLiteralsTypes st1)\<rparr>))
      else Inr st)"

text \<open>Lines 382-391: the first sight of a variable creates its two records.\<close>

definition ensureVariable :: "node \<Rightarrow> nat \<Rightarrow> TypeHelper \<Rightarrow> TypeHelper" where
  "ensureVariable node varPos st =
     (let st1 = (if map_of (variables st) varPos = None
                 then st\<lparr>variables := nset varPos (newVariableInfo (nodeText node) varPos) (variables st),
                         variablesData :=
                           nset varPos (newVariableData (getTypeAtLocation node)) (variablesData st)\<rparr>
                 else st)
      in updVarInfo varPos (\<lambda>v. v\<lparr>references := references v @ [pos node]\<rparr>) st1)"

fun isObjectLiteral :: "node option \<Rightarrow> bool" where
  "isObjectLiteral (Some (ObjectLiteralExpression i ps)) = True"
| "isObjectLiteral _ = False"

fun isEqualsToken :: "node \<Rightarrow> bool" where
  "isEqualsToken (EqualsToken i) = True"
| "isEqualsToken _ = False"

definition markObjLiteral :: "nat \<Rightarrow> node option \<Rightarrow> TypeHelper \<Rightarrow> TypeHelper" where
  "markObjLiteral varPos right st =
     (if isObjectLiteral right then updVarData varPos (\<lambda>d. d\<lparr>objLiteralAssigned := True\<rparr>) st
      else st)"

text \<open>Lines 393-409: the identifier's parent is a variable declaration.\<close>

fun forOfPromise :: "nat \<Rightarrow> ninfo \<Rightarrow> node list \<Rightarrow> TypeHelper \<Rightarrow> error + TypeHelper" where
  "forOfPromise varPos vi (declList # ForOfStatement fi (VariableDeclarationList li ds) fe fs # rest) st =
     (case ds of
        [] \<Rightarrow> Inl TypeError
      | d0 # _ \<Rightarrow>
          if pos d0 = npos vi
          then Inr (pushPromise varPos (newTypePromise fe (ElementB True)) st)
          else Inr st)"
| "forOfPromise varPos vi outer st = Inr st"

definition visitDeclared ::
  "node \<Rightarrow> nat \<Rightarrow> ninfo \<Rightarrow> node \<Rightarrow> node option \<Rightarrow> node list \<Rightarrow> TypeHelper \<Rightarrow> error + TypeHelper" where
  "visitDeclared node varPos vi vname initializer outer st =
     (if nodeText vname = nodeText node
      then ebind (addTypeToVariable varPos (Some vname) initializer st) (\<lambda>st1.
             forOfPromise varPos vi outer (markObjLiteral varPos initializer st1))
      else Inr st)"

text \<open>
  Lines 410-421: the identifier's parent is a parameter; \<open>outer\<close> are the parameter's
  ancestors, the first of them \<open>node.parent.parent\<close>, whose \<open>parameters\<close> are read.
  For a function declaration they are its parameters. Every other function-like node
  (a function expression, an arrow function, a method, a signature) is an \<open>OtherNode\<close>
  here, and its parameters are its children that are parameters. A node of another
  kind has no \<open>parameters\<close>, and reading their \<open>length\<close> is a \<open>TypeError\<close>, as
  is reading \<open>parameters\<close> of a missing node.
\<close>

fun isParameter :: "node \<Rightarrow> bool" where
  "isParameter (Parameter i n e) = True"
| "isParameter _ = False"

fun parametersOf :: "node list \<Rightarrow> (nat \<times> node list) option" where
  "parametersOf (FunctionDeclaration fi bs ps cs # rest) = Some (npos fi, ps)"
| "parametersOf (OtherNode fi cs # rest) = Some (npos fi, filter isParameter cs)"
| "parametersOf outer = None"

fun initializerOf :: "node \<Rightarrow> node option" where
  "initializerOf (Parameter i n e) = e"
| "initializerOf (VariableDeclaration i n e) = e"
| "initializerOf n = None"

fun visitParameters ::
  "node \<Rightarrow> nat \<Rightarrow> nat \<Rightarrow> nat \<Rightarrow> node list \<Rightarrow> TypeHelper \<Rightarrow> error + TypeHelper" where
  "visitParameters node varPos funcPos i [] st = Inr st"
| "visitParameters node varPos funcPos i (param # params) st =
     (if pos param = pos node
      then addTypeToVariable varPos (Some node) (initializerOf param)
             (updVarData varPos
                (\<lambda>d. d\<lparr>parameterIndex := Some i, parameterFuncDeclPos := Some (funcPos + 1)\<rparr>) st)
      else visitParameters node varPos funcPos (Suc i) params st)"

definition visitParameter :: "node \<Rightarrow> nat \<Rightarrow> node list \<Rightarrow> TypeHelper \<Rightarrow> error + TypeHelper" where
  "visitParameter node varPos outer st =
     (case parametersOf outer of
        Some (funcPos, params) \<Rightarrow> visitParameters node varPos funcPos 0 params st
      | None \<Rightarrow> Inl TypeError)"

text \<open>Lines 422-431: the identifier's parent is a binary expression.\<close>

definition visitAssigned ::
  "node \<Rightarrow> nat \<Rightarrow> node \<Rightarrow> node \<Rightarrow> node \<Rightarrow> TypeHelper \<Rightarrow> error + TypeHelper" where
  "visitAssigned node varPos left operatorToken right st =
     (if isIdentifier left \<and> nodeText left = nodeText node \<and> isEqualsToken operatorToken
      then ebind (addTypeToVariable varPos (Some left) (Some right) st) (\<lambda>st1.
             Inr (markObjLiteral varPos (Some right) st1))
      else Inr st)"

text \<open>
  Lines 432-481: the identifier's parent is a property access; \<open>outer\<close> are the
  ancestors of the property access.
\<close>

fun visitPropertyWrite ::
  "nat \<Rightarrow> ninfo \<Rightarrow> node \<Rightarrow> node list \<Rightarrow> TypeHelper \<Rightarrow> error + TypeHelper" where
  "visitPropertyWrite varPos pi nm [] st = Inl TypeError"
| "visitPropertyWrite varPos pi nm (BinaryExpression bi left operatorToken right # rest) st =
     (if pos left = npos pi \<and> isEqualsToken operatorToken
      then ebind (determineType (Some nm) (Some right) st) (\<lambda>(determinedType, st1).
             case determinedType of
               P p \<Rightarrow> Inr st1
             | T t \<Rightarrow>
                 Inr (updVarData varPos
                        (\<lambda>d. d\<lparr>addedProperties := dset (nodeText nm) t (addedProperties d)\<rparr>) st1))
      else Inr st)"
| "visitPropertyWrite varPos pi nm (other # rest) st = Inr st"

fun pushedType :: "node \<Rightarrow> node list \<Rightarrow> TypeHelper \<Rightarrow> error + (evidence \<times> TypeHelper)" where
  "pushedType expression (CallExpression ci callee [argument] # rest) st =
     determineType (Some expression) (Some argument) st"
| "pushedType expression outer st = Inr (T (Str UniversalVarType), st)"

definition setDynamic :: "nat \<Rightarrow> TypeHelper \<Rightarrow> TypeHelper" where
  "setDynamic a st =
     (if a < length (arrays st)
      then st\<lparr>arrays := (arrays st)[a := (arrays st ! a)\<lparr>isDynamicArray := True\<rparr>]\<rparr>
      else st)"

fun elementTextFound :: "TypeHelper \<Rightarrow> string \<Rightarrow> (string \<times> ctype) list \<Rightarrow> error + bool" where
  "elementTextFound st dtString [] = Inr False"
| "elementTextFound st dtString ((tk, ArrayRef a) # rest) =
     ebind (arrayElementType st a) (\<lambda>atElementType.
       ebind (typeText st atElementType) (\<lambda>atElementTypeString.
         if atElementTypeString = dtString then Inr True
         else elementTextFound st dtString rest))"
| "elementTextFound st dtString ((tk, at) # rest) = elementTextFound st dtString rest"

definition newArray :: "ctype \<Rightarrow> nat \<Rightarrow> bool \<Rightarrow> TypeHelper \<Rightarrow> ctype \<times> TypeHelper" where
  "newArray et cap dyn st =
     (ArrayRef (length (arrays st)),
      st\<lparr>arrays := arrays st @ [\<lparr>elementType = et, capacity = cap, isDynamicArray = dyn\<rparr>]\<rparr>)"

definition addPushed :: "nat \<Rightarrow> evidence \<Rightarrow> TypeHelper \<Rightarrow> error + TypeHelper" where
  "addPushed varPos determinedType st =
     (case determinedType of
        P p \<Rightarrow> Inr (pushPromise varPos (p\<lparr>arrayOf := True\<rparr>) st)
      | T t \<Rightarrow>
          let st1 = (case t of ArrayRef a \<Rightarrow> setDynamic a st | _ \<Rightarrow> st) in
          ebind (typeText st1 t) (\<lambda>dtString.
            ebind (getVarData st1 varPos) (\<lambda>varData.
              ebind (elementTextFound st1 dtString (assignmentTypes varData)) (\<lambda>found.
                if found then Inr st1
                else (case newArray t 0 True st1 of (arrayOfType, st2) \<Rightarrow>
                        ebind (typeText st2 arrayOfType) (\<lambda>k.
                          Inr (setAssignmentType varPos k arrayOfType st2)))))))"

definition visitPropertyAccess ::
  "node \<Rightarrow> nat \<Rightarrow> ninfo \<Rightarrow> node \<Rightarrow> node \<Rightarrow> node list \<Rightarrow> TypeHelper \<Rightarrow> error + TypeHelper" where
  "visitPropertyAccess node varPos pi expression nm outer st =
     ebind (if pos expression = pos node then visitPropertyWrite varPos pi nm outer st
            else Inr st) (\<lambda>st1.
       ebind (if isIdentifier expression \<and> nodeText nm = ''push''
              then ebind (pushedType expression outer
                            (updVarData varPos (\<lambda>d. d\<lparr>varIsDynamicArray := True\<rparr>) st1))
                         (\<lambda>(determinedType, st2). addPushed varPos determinedType st2)
              else Inr st1) (\<lambda>st3.
         if isIdentifier expression \<and> nodeText nm = ''pop''
         then Inr (updVarData varPos (\<lambda>d. d\<lparr>varIsDynamicArray := True\<rparr>) st3)
         else Inr st3))"

text \<open>
  Lines 482-535: the identifier's parent is an element access; \<open>outer\<close> are the
  ancestors of the element access.
\<close>

fun writtenType :: "ninfo \<Rightarrow> node \<Rightarrow> node list \<Rightarrow> TypeHelper \<Rightarrow> error + (evidence \<times> TypeHelper)" where
  "writtenType ei expression (BinaryExpression bi left operatorToken right # rest) st =
     (if pos left = npos ei \<and> isEqualsToken operatorToken
      then determineType (Some expression) (Some right) st
      else Inr (T (Str UniversalVarType), st))"
| "writtenType ei expression outer st = Inr (T (Str UniversalVarType), st)"

text \<open>Lines 493-503: a string-literal key.\<close>

definition addProperty :: "nat \<Rightarrow> string \<Rightarrow> evidence \<Rightarrow> TypeHelper \<Rightarrow> TypeHelper" where
  "addProperty varPos pn determinedType st =
     (let st1 = (case determinedType of
                   P p \<Rightarrow> pushPromise varPos (p\<lparr>associatedProperty := Some pn\<rparr>) st
                 | T t \<Rightarrow> st);
          st2 = updVarData varPos
                  (\<lambda>d. d\<lparr>addedProperties :=
                          dset pn (if truthy (lookupP (addedProperties d) pn)
                                   then lookupP (addedProperties d) pn
                                   else Str UniversalVarType) (addedProperties d)\<rparr>) st1
      in case determinedType of
           P p \<Rightarrow> st2
         | T t \<Rightarrow>
             updVarData varPos
               (\<lambda>d. if lookupP (addedProperties d) pn = Str UniversalVarType
                    then d\<lparr>addedProperties := dset pn t (addedProperties d)\<rparr> else d) st2)"

text \<open>Lines 510-514: a numeric-literal key fills the unknown element types.\<close>

fun fillElementTypes :: "ctype \<Rightarrow> (string \<times> ctype) list \<Rightarrow> TypeHelper \<Rightarrow> error + TypeHelper" where
  "fillElementTypes t [] st = Inr st"
| "fillElementTypes t ((atKey, ArrayRef a) # rest) st =
     ebind (arrayElementType st a) (\<lambda>et.
       if et = Str UniversalVarType
       then fillElementTypes t rest
              (st\<lparr>arrays := (arrays st)[a := (arrays st ! a)\<lparr>elementType := t\<rparr>]\<rparr>)
       else fillElementTypes t rest st)"
| "fillElementTypes t ((atKey, at) # rest) st = fillElementTypes t rest st"

text \<open>
  Lines 524-531: any other key turns the record candidates into a dictionary. The
  loop runs over the keys the table had at its start and reads the table as it is.
\<close>

fun dictConvert ::
  "TypeHelper \<Rightarrow> ctype \<Rightarrow> string list \<Rightarrow> (string \<times> ctype) list \<Rightarrow> error + (string \<times> ctype) list" where
  "dictConvert st t [] ats = Inr ats"
| "dictConvert st t (atKey # ks) ats =
     (if isStructType (lookupT ats atKey)
      then ebind (typeText st (DictType t)) (\<lambda>k.
             dictConvert st t ks (dset k (DictType t) (ddelete atKey ats)))
      else dictConvert st t ks ats)"

definition visitElementAccess ::
  "node \<Rightarrow> nat \<Rightarrow> ninfo \<Rightarrow> node \<Rightarrow> node \<Rightarrow> node list \<Rightarrow> TypeHelper \<Rightarrow> error + TypeHelper" where
  "visitElementAccess node varPos ei expression argumentExpression outer st =
     (if pos expression = pos node
      then ebind (writtenType ei expression outer st) (\<lambda>(determinedType, st1).
        case argumentExpression of
          StringLiteral ai \<Rightarrow>
            Inr (addProperty varPos (slice1 (nodeText argumentExpression)) determinedType st1)
        | NumericLiteral ai \<Rightarrow>
            (case determinedType of
               P p \<Rightarrow> Inr (pushPromise varPos (p\<lparr>arrayOf := True\<rparr>) st1)
             | T t \<Rightarrow>
                 ebind (getVarData st1 varPos) (\<lambda>varData.
                   fillElementTypes t (assignmentTypes varData) st1))
        | _ \<Rightarrow>
            (let st2 = updVarData varPos (\<lambda>d. d\<lparr>isDict := True\<rparr>) st1 in
             case determinedType of
               P p \<Rightarrow> Inr (pushPromise varPos (p\<lparr>arrayOf := True\<rparr>) st2)
             | T t \<Rightarrow>
                 ebind (getVarData st2 varPos) (\<lambda>varData.
                   ebind (dictConvert st2 t (keys (assignmentTypes varData))
                            (assignmentTypes varData)) (\<lambda>ats.
                     Inr (updVarData varPos (\<lambda>d. d\<lparr>assignmentTypes := ats\<rparr>) st2)))))
      else Inr st)"

text \<open>Lines 536-541: the identifier's parent is a for-of statement.\<close>

definition visitForOf :: "node \<Rightarrow> nat \<Rightarrow> node \<Rightarrow> node \<Rightarrow> TypeHelper \<Rightarrow> error + TypeHelper" where
  "visitForOf node varPos initializer expression st =
     (if isIdentifier initializer \<and> pos initializer = pos node
      then Inr (pushPromise varPos (newTypePromise expression (ElementB True)) st)
      else Inr st)"

text \<open>Lines 377-543: an identifier; \<open>outer\<close> are its ancestors.\<close>

fun visitParent :: "node \<Rightarrow> nat \<Rightarrow> node list \<Rightarrow> TypeHelper \<Rightarrow> error + TypeHelper" where
  "visitParent node varPos (VariableDeclaration vi vname initializer # rest) st =
     visitDeclared node varPos vi vname initializer rest st"
| "visitParent node varPos (Parameter pi pname initializer # rest) st =
     visitParameter node varPos rest st"
| "visitParent node varPos (BinaryExpression bi left operatorToken right # rest) st =
     visitAssigned node varPos left operatorToken right st"
| "visitParent node varPos (PropertyAccessExpression pi expression nm # rest) st =
     visitPropertyAccess node varPos pi expression nm rest st"
| "visitParent node varPos (ElementAccessExpression ei expression argumentExpression # rest) st =
     visitElementAccess node varPos ei expression argumentExpression rest st"
| "visitParent node varPos (ForOfStatement fi initializer expression statement # rest) st =
     visitForOf node varPos initializer expression st"
| "visitParent node varPos outer st = Inr st"

definition visitIdentifier :: "node \<Rightarrow> node list \<Rightarrow> TypeHelper \<Rightarrow> error + TypeHelper" where
  "visitIdentifier node outer st =
     (case getSymbolAtLocation node of
        None \<Rightarrow> Inr st
      | Some varPos \<Rightarrow> visitParent node varPos outer (ensureVariable node varPos st))"

text \<open>Lines 333-543: what one node adds, before the walk goes on to its children.\<close>

fun visit :: "node list \<Rightarrow> node \<Rightarrow> TypeHelper \<Rightarrow> error + TypeHelper" where
  "visit outer (CallExpression i callee arguments) st = visitCall i callee arguments st"
| "visit outer (ReturnStatement i expression) st =
     visitReturn (ReturnStatement i expression # outer) expression st"
| "visit outer (ArrayLiteralExpression i es) st = visitArrayLiteral (ArrayLiteralExpression i es) st"
| "visit outer (ObjectLiteralExpression i ps) st = visitObjectLiteral (ObjectLiteralExpression i ps) st"
| "visit outer (Identifier i) st = visitIdentifier (Identifier i) outer st"
| "visit outer node st = Inr st"

lemma weight_le_size_list:
  "sum_list (map (\<lambda>c. 6 * size c + 2) cs) \<le> 6 * size_list size (cs :: node list)"
  by (induction cs) auto

lemma weight_getChildren:
  "sum_list (map (\<lambda>c. 6 * size c + 2) (getChildren n)) < 6 * size n + 1"
proof (cases n)
  case (CallExpression i e as)
  then show ?thesis using weight_le_size_list[of as] by simp
next
  case (ArrayLiteralExpression i es)
  then show ?thesis using weight_le_size_list[of es] by simp
next
  case (ObjectLiteralExpression i ps)
  then show ?thesis using weight_le_size_list[of ps] by simp
next
  case (FunctionDeclaration i bs ps cs)
  then show ?thesis
    using weight_le_size_list[of bs] weight_le_size_list[of ps] weight_le_size_list[of cs]
    by simp
next
  case (VariableDeclarationList i ds)
  then show ?thesis using weight_le_size_list[of ds] by simp
next
  case (OtherNode i cs)
  then show ?thesis using weight_le_size_list[of cs] by simp
qed (auto split: option.splits)

function findVariablesRecursively :: "node list \<Rightarrow> node \<Rightarrow> TypeHelper \<Rightarrow> error + TypeHelper"
  and findVariablesChildren :: "node list \<Rightarrow> node list \<Rightarrow> TypeHelper \<Rightarrow> error + TypeHelper"
where
  "findVariablesRecursively outer node st =
     ebind (visit outer node st) (findVariablesChildren (node # outer) (getChildren node))"
| "findVariablesChildren chain [] st = Inr st"
| "findVariablesChildren chain (c # cs) st =
     ebind (findVariablesRecursively chain c st) (findVariablesChildren chain cs)"
  by pat_completeness auto
termination
  by (relation "measure
       (\<lambda>x. case x of Inl (outer, n, st) \<Rightarrow> 6 * size n + 1
                     | Inr (chain, cs, st) \<Rightarrow> sum_list (map (\<lambda>c. 6 * size c + 2) cs))")
     (use weight_getChildren in auto)

section \<open>The fixed-point resolver (types.ts, lines 548-671)\<close>

definition getVarInfo :: "TypeHelper \<Rightarrow> nat \<Rightarrow> error + VariableInfo" where
  "getVarInfo st varPos =
     (case map_of (variables st) varPos of None \<Rightarrow> Inl TypeError | Some v \<Rightarrow> Inr v)"

text \<open>Line 558: the keys of the evidence set that are not a fallback text.\<close>

definition candidateKeys :: "VariableData \<Rightarrow> string list" where
  "candidateKeys d =
     filter (\<lambda>t. t \<noteq> PointerVarType \<and> t \<noteq> UniversalVarType) (keys (assignmentTypes d))"

text \<open>Lines 570-576: the added properties are written into the chosen record.\<close>

definition mergeProperties :: "nat \<Rightarrow> (string \<times> ctype) list \<Rightarrow> TypeHelper \<Rightarrow> error + TypeHelper" where
  "mergeProperties a added st =
     (case deref (structs st) a of
        None \<Rightarrow> Inl TypeError
      | Some obj \<Rightarrow>
          Inr (st\<lparr>structs := (structs st)
                  [a := obj\<lparr>properties := fold (\<lambda>(k, t). dset k t) added (properties obj)\<rparr>]\<rparr>))"

text \<open>Lines 560-577: the evidence set has one candidate, \<open>varType\<close>.\<close>

fun finalizeSingle :: "nat \<Rightarrow> VariableData \<Rightarrow> ctype \<Rightarrow> TypeHelper \<Rightarrow> error + TypeHelper" where
  "finalizeSingle k d (ArrayRef a) st =
     (case deref (arrays st) a of
        None \<Rightarrow> Inl TypeError
      | Some arr \<Rightarrow>
          let st1 = st\<lparr>arrays := (arrays st)
                       [a := arr\<lparr>isDynamicArray := isDynamicArray arr \<or> varIsDynamicArray d\<rparr>]\<rparr>;
              st2 = (if varIsDynamicArray d
                     then updVarInfo k (\<lambda>v. v\<lparr>requiresAllocation := True\<rparr>) st1 else st1)
          in Inr (updVarInfo k (\<lambda>v. v\<lparr>type := ArrayRef a\<rparr>) st2))"
| "finalizeSingle k d (StructRef a) st =
     (let st1 = (if objLiteralAssigned d
                 then updVarInfo k (\<lambda>v. v\<lparr>requiresAllocation := True\<rparr>) st else st)
      in ebind (mergeProperties a (addedProperties d) st1) (\<lambda>st2.
           Inr (updVarInfo k (\<lambda>v. v\<lparr>type := StructRef a\<rparr>) st2)))"
| "finalizeSingle k d (DictType e) st =
     Inr (updVarInfo k (\<lambda>v. v\<lparr>type := DictType e, requiresAllocation := True\<rparr>) st)"
| "finalizeSingle k d varType st = Inr (updVarInfo k (\<lambda>v. v\<lparr>type := varType\<rparr>) st)"

text \<open>Lines 558-585: the finalization of one variable.\<close>

definition finalizeVariable :: "nat \<Rightarrow> TypeHelper \<Rightarrow> error + TypeHelper" where
  "finalizeVariable k st =
     ebind (getVarData st k) (\<lambda>d.
       case candidateKeys d of
         [t] \<Rightarrow> finalizeSingle k d (lookupT (assignmentTypes d) t) st
       | [] \<Rightarrow> Inr (updVarInfo k (\<lambda>v. v\<lparr>type := Str PointerVarType\<rparr>) st)
       | _ \<Rightarrow> Inr (updVarInfo k (\<lambda>v. v\<lparr>requiresAllocation := True,
                                         type := Str UniversalVarType\<rparr>) st))"

text \<open>
  Lines 602-608 and 618-624: the type that a piece of call-site or return evidence
  stands for now; \<open>Null\<close> is a false \<open>finalType\<close>. The second component tells
  whether a promise was marked resolved.
\<close>

fun evidenceType :: "evidence \<Rightarrow> TypeHelper \<Rightarrow> error + (ctype \<times> evidence \<times> TypeHelper)" where
  "evidenceType (T t) st = Inr (if truthy t then t else Null, T t, st)"
| "evidenceType (P p) st =
     ebind (getCType (associatedNode p) st) (\<lambda>(t, st1).
       if truthy t then Inr (t, P (p\<lparr>resolved := True\<rparr>), st1)
       else Inr (Null, P p, st1))"

text \<open>Lines 598-614: the call-site evidence of a parameter.\<close>

definition resolveParameter :: "nat \<Rightarrow> TypeHelper \<Rightarrow> error + (bool \<times> TypeHelper)" where
  "resolveParameter varPos st =
     ebind (getVarData st varPos) (\<lambda>d.
       case parameterFuncDeclPos d of
         None \<Rightarrow> Inr (False, st)
       | Some funcDeclPos \<Rightarrow>
           (case (if funcDeclPos = 0 then None else map_of (functionCallsData st) funcDeclPos) of
              None \<Rightarrow> Inr (False, st)
            | Some callData \<Rightarrow>
                (case (case parameterIndex d of
                         None \<Rightarrow> None
                       | Some i \<Rightarrow> if i < length callData then Some (i, callData ! i) else None) of
                   None \<Rightarrow> Inr (False, st)
                 | Some (i, ev) \<Rightarrow>
                     ebind (evidenceType ev st) (\<lambda>(finalType, ev', st1).
                       let st2 = st1\<lparr>functionCallsData :=
                                   updAt funcDeclPos (\<lambda>cd. cd[i := ev']) (functionCallsData st1)\<rparr>
                       in if finalType = Null then Inr (False, st2)
                          else ebind (getTypeString (CTypeSource finalType) st2) (\<lambda>(k, st3).
                                 ebind (getVarData st3 varPos) (\<lambda>d3.
                                   if \<not> truthy (lookupP (assignmentTypes d3) k)
                                   then Inr (True, setAssignmentType varPos k finalType st3)
                                   else Inr (False, st3)))))))"

text \<open>Lines 616-633: the return evidence of every function.\<close>

fun resolveReturns :: "scopeId list \<Rightarrow> bool \<Rightarrow> TypeHelper \<Rightarrow> error + (bool \<times> TypeHelper)" where
  "resolveReturns [] some st = Inr (some, st)"
| "resolveReturns (funcDeclPos # rest) some st =
     (case map_of (functionReturnsData st) funcDeclPos of
        None \<Rightarrow> resolveReturns rest some st
      | Some ev \<Rightarrow>
          ebind (evidenceType ev st) (\<lambda>(finalType, ev', st1).
            let st2 = st1\<lparr>functionReturnsData := updAt funcDeclPos (\<lambda>x. ev') (functionReturnsData st1)\<rparr>;
                st3 = (if \<not> truthy (lookupT (functionReturnTypes st2) funcDeclPos)
                       then st2\<lparr>functionReturnTypes :=
                                 sset funcDeclPos (Str PointerVarType) (functionReturnTypes st2)\<rparr>
                       else st2)
            in if finalType \<noteq> Null \<and> finalType \<noteq> Str PointerVarType
                  \<and> lookupT (functionReturnTypes st3) funcDeclPos = Str PointerVarType
               then resolveReturns rest True
                      (st3\<lparr>functionReturnTypes := sset funcDeclPos finalType (functionReturnTypes st3)\<rparr>)
               else resolveReturns rest some st3))"

text \<open>Lines 640-653: the type a discharged promise contributes.\<close>

fun elementTruthy :: "element \<Rightarrow> bool" where
  "elementTruthy (ElementB b) = b"
| "elementTruthy (ElementS s) = (s \<noteq> [])"

definition promisedType :: "TypePromise \<Rightarrow> ctype \<Rightarrow> TypeHelper \<Rightarrow> error + (ctype \<times> TypeHelper)" where
  "promisedType promise resolvedType st =
     (if arrayOf promise then Inr (newArray resolvedType 0 True st)
      else if isStructType resolvedType \<and> elementTruthy (element promise)
      then (case (resolvedType, element promise) of
              (StructRef a, ElementS pn) \<Rightarrow> ebind (structProperty st a pn) (\<lambda>t. Inr (t, st))
            | _ \<Rightarrow> Inr (resolvedType, st))
      else if isArrayType resolvedType \<and> elementTruthy (element promise)
      then (case resolvedType of
              ArrayRef a \<Rightarrow> ebind (arrayElementType st a) (\<lambda>t. Inr (t, st))
            | _ \<Rightarrow> Inr (resolvedType, st))
      else Inr (resolvedType, st))"

text \<open>Lines 638-665: one promise of the variable, the \<open>j\<close>-th of its list.\<close>

definition resolvePromise :: "nat \<Rightarrow> nat \<Rightarrow> TypePromise \<Rightarrow> TypeHelper \<Rightarrow> error + (bool \<times> TypeHelper)" where
  "resolvePromise varPos j promise st =
     ebind (getCType (associatedNode promise) st) (\<lambda>(resolvedType, st1).
       if resolvedType = Null then Inr (False, st1)
       else
         let st2 = updVarData varPos
                     (\<lambda>d. d\<lparr>typePromises := (typePromises d)[j := promise\<lparr>resolved := True\<rparr>]\<rparr>) st1
         in ebind (promisedType promise resolvedType st2) (\<lambda>(finalType, st3).
              case associatedProperty promise of
                Some (c # cs) \<Rightarrow>
                  Inr (True, updVarData varPos
                               (\<lambda>d. d\<lparr>addedProperties := dset (c # cs) finalType (addedProperties d)\<rparr>)
                               st3)
              | _ \<Rightarrow>
                  ebind (typeText st3 finalType) (\<lambda>k.
                    Inr (True, setAssignmentType varPos k finalType st3))))"

text \<open>
  Lines 635-667: the promises that were unresolved when the loop started, in order.
\<close>

fun resolvePromises ::
  "nat \<Rightarrow> nat \<Rightarrow> TypePromise list \<Rightarrow> bool \<Rightarrow> TypeHelper \<Rightarrow> error + (bool \<times> TypeHelper)" where
  "resolvePromises varPos j [] some st = Inr (some, st)"
| "resolvePromises varPos j (promise # rest) some st =
     (if resolved promise then resolvePromises varPos (Suc j) rest some st
      else ebind (resolvePromise varPos j promise st) (\<lambda>(r, st1).
             resolvePromises varPos (Suc j) rest (some \<or> r) st1))"

text \<open>Lines 595-671.\<close>

definition tryResolvePromises :: "nat \<Rightarrow> TypeHelper \<Rightarrow> error + (bool \<times> TypeHelper)" where
  "tryResolvePromises varPos st =
     ebind (resolveParameter varPos st) (\<lambda>(some1, st1).
       ebind (resolveReturns (keys (functionReturnsData st1)) some1 st1) (\<lambda>(some2, st2).
         ebind (getVarData st2 varPos) (\<lambda>d.
           resolvePromises varPos 0 (typePromises d) some2 st2)))"

text \<open>
  Lines 554-589: one pass of the loop over the variables. The call of
  \<open>tryResolvePromises\<close> is the right operand of \<open>||\<close>: it is not made once the
  flag is set.
\<close>

fun resolvePass :: "nat list \<Rightarrow> bool \<Rightarrow> TypeHelper \<Rightarrow> error + (bool \<times> TypeHelper)" where
  "resolvePass [] some st = Inr (some, st)"
| "resolvePass (k # ks) some st =
     ebind (finalizeVariable k st) (\<lambda>st1.
       if some then resolvePass ks True st1
       else ebind (tryResolvePromises k st1) (\<lambda>(r, st2). resolvePass ks r st2))"

text \<open>
  Lines 548-593: the loop. \<open>None\<close> is a loop that never ends, \<open>Some (Inl e)\<close> one
  that an exception ends.
\<close>

partial_function (option) resolvePromisesAndFinalizeTypes :: "TypeHelper \<Rightarrow> (error + TypeHelper) option" where
  "resolvePromisesAndFinalizeTypes st =
     (case resolvePass (keys (variables st)) False st of
        Inl e \<Rightarrow> Some (Inl e)
      | Inr (somePromisesAreResolved, st1) \<Rightarrow>
          if somePromisesAreResolved then resolvePromisesAndFinalizeTypes st1
          else Some (Inr st1))"

declare resolvePromisesAndFinalizeTypes.simps [code]

text \<open>Lines 109-113: the walk over the source files, then the loop.\<close>

definition figureOutVariablesAndTypes :: "node list \<Rightarrow> (error + TypeHelper) option" where
  "figureOutVariablesAndTypes sources =
     (case findVariablesChildren [] sources emptyTypeHelper of
        Inl e \<Rightarrow> Some (Inl e)
      | Inr st \<Rightarrow> resolvePromisesAndFinalizeTypes st)"

section \<open>Notions used in the statements\<close>

text \<open>
  A type value is well formed when rendering it ends and meets no value without a
  \<open>getText\<close> (\<open>null\<close>, \<open>undefined\<close> or an inherited member) and, in the store,
  no missing object.
\<close>

fun wfTypeB :: "nat \<Rightarrow> ArrayType list \<Rightarrow> StructType list \<Rightarrow> ctype \<Rightarrow> bool" where
  "wfTypeB n ah sh (Str s) = True"
| "wfTypeB n ah sh Null = False"
| "wfTypeB n ah sh (StructRef a) = (a < length sh)"
| "wfTypeB n ah sh (DictType e) = wfTypeB n ah sh e"
| "wfTypeB 0 ah sh (ArrayRef a) = False"
| "wfTypeB (Suc n) ah sh (ArrayRef a) =
     (a < length ah \<and> wfTypeB n ah sh (elementType (ah ! a)))"
| "wfTypeB n ah sh (Inherited m) = False"

definition wfType :: "TypeHelper \<Rightarrow> ctype \<Rightarrow> bool" where
  "wfType st t = wfTypeB (length (arrays st)) (arrays st) (structs st) t"

fun noneOfFour :: "ctype option \<Rightarrow> bool" where
  "noneOfFour None = True"
| "noneOfFour (Some t) = (\<not> (isArrayType t \<or> isStructType t \<or> isDictType t \<or> isString t))"

definition exampleArrayState :: TypeHelper where
  "exampleArrayState =
     emptyTypeHelper\<lparr>arrays :=
       [\<lparr>elementType = Str NumberVarType, capacity = 3, isDynamicArray = False\<rparr>]\<rparr>"

text \<open>An array object whose element type is \<open>undefined\<close>.\<close>

definition undefinedElementState :: TypeHelper where
  "undefinedElementState =
     emptyTypeHelper\<lparr>arrays := [\<lparr>elementType = Null, capacity = 0, isDynamicArray = True\<rparr>]\<rparr>"

fun isArrayLiteral :: "node \<Rightarrow> bool" where
  "isArrayLiteral (ArrayLiteralExpression i es) = True"
| "isArrayLiteral _ = False"

fun isPropertyAccess :: "node \<Rightarrow> bool" where
  "isPropertyAccess (PropertyAccessExpression i e n) = True"
| "isPropertyAccess _ = False"

fun isElementAccess :: "node \<Rightarrow> bool" where
  "isElementAccess (ElementAccessExpression i e a) = True"
| "isElementAccess _ = False"

fun isCallExpression :: "node \<Rightarrow> bool" where
  "isCallExpression (CallExpression i e as) = True"
| "isCallExpression _ = False"

definition isFallback :: "ctype \<Rightarrow> bool" where
  "isFallback t = (t = Str PointerVarType \<or> t = Str UniversalVarType)"

definition anyIdentifier :: node where
  "anyIdentifier = Identifier \<lparr>npos = 4, ntext = ''x'', ntype = TsAny, nsymbol = Some 1\<rparr>"

definition anyParenthesized :: node where
  "anyParenthesized =
     OtherNode \<lparr>npos = 4, ntext = ''(x)'', ntype = TsAny, nsymbol = None\<rparr> [anyIdentifier]"

text \<open>
  What an evaluation of a node may not touch: the seven tables below stay as they are,
  and the stores of array and record objects only grow at their end, so that every
  object that existed is unchanged.
\<close>

definition framed :: "TypeHelper \<Rightarrow> TypeHelper \<Rightarrow> bool" where
  "framed st st' =
     (variables st' = variables st \<and> variablesData st' = variablesData st
      \<and> functionCallsData st' = functionCallsData st
      \<and> functionReturnsData st' = functionReturnsData st
      \<and> functionReturnTypes st' = functionReturnTypes st
      \<and> functionPrototypes st' = functionPrototypes st
      \<and> objectLiteralsTypes st' = objectLiteralsTypes st
      \<and> temporaryVariables st' = temporaryVariables st
      \<and> take (length (arrays st)) (arrays st') = arrays st
      \<and> take (length (structs st)) (structs st') = structs st)"

text \<open>The node at which the recursion of \<open>getCType\<close> through receivers ends.\<close>

fun receiver :: "node \<Rightarrow> node" where
  "receiver (ElementAccessExpression i expression argumentExpression) = receiver expression"
| "receiver (PropertyAccessExpression i expression nm) = receiver expression"
| "receiver (CallExpression i (PropertyAccessExpression pi expression nm) arguments) =
     (if (nodeText nm = ''pop'' \<and> length arguments = 0)
         \<or> (nodeText nm = ''push'' \<and> length arguments = 1)
         \<or> (nodeText nm = ''indexOf'' \<and> length arguments = 1)
      then receiver expression
      else CallExpression i (PropertyAccessExpression pi expression nm) arguments)"
| "receiver node = node"

definition objectTypedNode :: node where
  "objectTypedNode =
     OtherNode \<lparr>npos = 0, ntext = ''(o)'',
                ntype = TsObject [TsProp ''a'' ''a'' TsNumber None], nsymbol = None\<rparr> []"

definition objectTypedResult :: TypeHelper where
  "objectTypedResult =
     emptyTypeHelper\<lparr>userStructs := [(''struct_0_t'', 0)],
       structs := [\<lparr>structName = ''struct struct_0_t *'',
                    properties = [(''a'', Str NumberVarType)]\<rparr>]\<rparr>"

text \<open>
  The table of records and the store of record objects after \<open>generateStructure\<close>
  was called, without a naming identifier, for the type \<open>{struct: {w: number}}\<close>,
  and then once and twice for the type \<open>{struct: {q: number}}\<close>; all other tables
  are empty.
\<close>

definition recordW :: StructType where
  "recordW = \<lparr>structName = ''struct struct_t *'', properties = [(''w'', Str ''int16_t'')]\<rparr>"

definition recordQ :: "string \<Rightarrow> StructType" where
  "recordQ nm = \<lparr>structName = nm, properties = [(''q'', Str ''int16_t'')]\<rparr>"

definition recordS :: "string \<Rightarrow> nat \<Rightarrow> StructType" where
  "recordS nm a = \<lparr>structName = nm, properties = [(''struct'', StructRef a)]\<rparr>"

definition registeredW :: TypeHelper where
  "registeredW = emptyTypeHelper
     \<lparr>userStructs := [(''struct_t'', 0), (''struct_0_t'', 1)],
      structs := [recordW, recordS ''struct struct_0_t *'' 0]\<rparr>"

definition registeredOnce :: TypeHelper where
  "registeredOnce = emptyTypeHelper
     \<lparr>userStructs := [(''struct_t'', 0), (''struct_0_t'', 1), (''struct_2_t'', 3)],
      structs := [recordW, recordS ''struct struct_0_t *'' 0,
                  recordQ ''struct struct_2_t *'', recordS ''struct struct_2_t *'' 2]\<rparr>"

definition registeredTwice :: TypeHelper where
  "registeredTwice = emptyTypeHelper
     \<lparr>userStructs := [(''struct_t'', 0), (''struct_0_t'', 1), (''struct_2_t'', 3),
                      (''struct_3_t'', 5)],
      structs := [recordW, recordS ''struct struct_0_t *'' 0,
                  recordQ ''struct struct_2_t *'', recordS ''struct struct_2_t *'' 2,
                  recordQ ''struct struct_3_t *'', recordS ''struct struct_3_t *'' 4]\<rparr>"

text \<open>Evidence that a later return with an expression, or a later call, does not replace.\<close>

fun kept :: "evidence option \<Rightarrow> bool" where
  "kept (Some (T t)) = (truthy t \<and> t \<noteq> Str UniversalVarType)"
| "kept _ = False"

text \<open>A function at position 0 with the statements \<open>return 5;\<close> and \<open>return;\<close>.\<close>

definition functionF :: node where
  "functionF = FunctionDeclaration \<lparr>npos = 0, ntext = ''function f() {}'', ntype = TsOther,
                                    nsymbol = None\<rparr> [] [] []"

definition returnFive :: node where
  "returnFive =
     ReturnStatement \<lparr>npos = 14, ntext = ''return 5;'', ntype = TsOther, nsymbol = None\<rparr>
       (Some (NumericLiteral \<lparr>npos = 20, ntext = ''5'', ntype = TsNumber, nsymbol = None\<rparr>))"

definition returnBare :: node where
  "returnBare =
     ReturnStatement \<lparr>npos = 23, ntext = ''return;'', ntype = TsOther, nsymbol = None\<rparr> None"

definition afterReturnFive :: TypeHelper where
  "afterReturnFive = emptyTypeHelper\<lparr>functionReturnsData := [(FuncScope 1, T (Str NumberVarType))]\<rparr>"

definition afterReturnBare :: TypeHelper where
  "afterReturnBare = emptyTypeHelper\<lparr>functionReturnsData := [(FuncScope 1, T (Str ''void''))]\<rparr>"

text \<open>
  Two calls of a function declared at position 0: \<open>f((x))\<close>, whose argument is a
  parenthesized expression of apparent type \<open>any\<close> or of an unrecognized apparent
  type, and \<open>f(5)\<close>.
\<close>

definition calleeF :: "nat \<Rightarrow> node" where
  "calleeF p = Identifier \<lparr>npos = p, ntext = ''f'', ntype = TsOther, nsymbol = Some 0\<rparr>"

definition callParenthesized :: "tstype \<Rightarrow> node" where
  "callParenthesized ty =
     CallExpression \<lparr>npos = 30, ntext = ''f((x))'', ntype = TsOther, nsymbol = None\<rparr>
       (calleeF 30)
       [OtherNode \<lparr>npos = 32, ntext = ''(x)'', ntype = ty, nsymbol = None\<rparr>
          [Identifier \<lparr>npos = 33, ntext = ''x'', ntype = ty, nsymbol = Some 20\<rparr>]]"

definition callFive :: node where
  "callFive =
     CallExpression \<lparr>npos = 40, ntext = ''f(5)'', ntype = TsOther, nsymbol = None\<rparr>
       (calleeF 40)
       [NumericLiteral \<lparr>npos = 42, ntext = ''5'', ntype = TsNumber, nsymbol = None\<rparr>]"

definition callsRecorded :: "ctype \<Rightarrow> TypeHelper" where
  "callsRecorded t = emptyTypeHelper\<lparr>functionCallsData := [(1, [T t])]\<rparr>"

fun isStringLiteral :: "node \<Rightarrow> bool" where
  "isStringLiteral (StringLiteral i) = True"
| "isStringLiteral _ = False"

fun isNumericLiteral :: "node \<Rightarrow> bool" where
  "isNumericLiteral (NumericLiteral i) = True"
| "isNumericLiteral _ = False"

text \<open>
  The write \<open>obj[k] = v\<close> with \<open>v\<close> of apparent type \<open>any\<close>, seen from the
  identifier \<open>obj\<close>, whose variable is declared at position 3.
\<close>

definition objIdent :: node where
  "objIdent = Identifier \<lparr>npos = 50, ntext = ''obj'', ntype = TsOther, nsymbol = Some 3\<rparr>"

definition keyIdent :: node where
  "keyIdent = Identifier \<lparr>npos = 54, ntext = ''k'', ntype = TsString, nsymbol = Some 9\<rparr>"

definition valueIdent :: node where
  "valueIdent = Identifier \<lparr>npos = 59, ntext = ''v'', ntype = TsAny, nsymbol = Some 12\<rparr>"

definition elemInfo :: ninfo where
  "elemInfo = \<lparr>npos = 50, ntext = ''obj[k]'', ntype = TsAny, nsymbol = None\<rparr>"

definition writeNode :: node where
  "writeNode =
     BinaryExpression \<lparr>npos = 50, ntext = ''obj[k] = v'', ntype = TsAny, nsymbol = None\<rparr>
       (ElementAccessExpression elemInfo objIdent keyIdent)
       (EqualsToken \<lparr>npos = 56, ntext = ''='', ntype = TsOther, nsymbol = None\<rparr>)
       valueIdent"

definition objData :: VariableData where
  "objData = (newVariableData TsOther)\<lparr>assignmentTypes := [(''struct obj_t *'', StructRef 0)]\<rparr>"

text \<open>
  The variable \<open>v\<close>, declared at position 12, has the final type \<open>int16_t\<close>.
  \<open>objWritten\<close> is the state after the write, and \<open>valuePromise\<close> the promise it
  adds.
\<close>

definition objState :: TypeHelper where
  "objState =
     emptyTypeHelper\<lparr>variables :=
         [(3, newVariableInfo ''obj'' 3),
          (12, (newVariableInfo ''v'' 12)\<lparr>type := Str NumberVarType, references := [59]\<rparr>)],
       variablesData :=
         [(3, objData),
          (12, (newVariableData TsAny)\<lparr>assignmentTypes := [(''int16_t'', Str NumberVarType)]\<rparr>)],
       userStructs := [(''obj_t'', 0)],
       structs := [\<lparr>structName = ''struct obj_t *'', properties = []\<rparr>]\<rparr>"

definition valuePromise :: TypePromise where
  "valuePromise = (newTypePromise valueIdent (ElementB False))\<lparr>arrayOf := True\<rparr>"

definition objWritten :: TypeHelper where
  "objWritten =
     objState\<lparr>variablesData :=
       [(3, objData\<lparr>isDict := True, typePromises := [valuePromise]\<rparr>),
        (12, (newVariableData TsAny)\<lparr>assignmentTypes := [(''int16_t'', Str NumberVarType)]\<rparr>)]\<rparr>"

text \<open>
  The candidates of an evidence set: its keys, which are the candidates' texts,
  without the two fallback texts.
\<close>

definition candidates :: "VariableData \<Rightarrow> string set" where
  "candidates d =
     {t \<in> set (keys (assignmentTypes d)). t \<noteq> PointerVarType \<and> t \<noteq> UniversalVarType}"

text \<open>The result of writing the added properties into a record's properties.\<close>

definition merged :: "(string \<times> ctype) list \<Rightarrow> (string \<times> ctype) list \<Rightarrow> string \<Rightarrow> ctype option" where
  "merged added props k = (case map_of added k of Some t \<Rightarrow> Some t | None \<Rightarrow> map_of props k)"

text \<open>
  A variable at position 3 whose only candidate is a record built from an object
  literal, with one added property.
\<close>

definition recordData :: VariableData where
  "recordData =
     (newVariableData TsOther)\<lparr>assignmentTypes := [(''struct obj_t *'', StructRef 0)],
        addedProperties := [(''name'', Str StringVarType)], objLiteralAssigned := True\<rparr>"

definition recordObject :: StructType where
  "recordObject = \<lparr>structName = ''struct obj_t *'', properties = [(''id'', Str NumberVarType)]\<rparr>"

definition recordState :: TypeHelper where
  "recordState =
     emptyTypeHelper\<lparr>variables := [(3, newVariableInfo ''obj'' 3)],
       variablesData := [(3, recordData)],
       userStructs := [(''obj_t'', 0)],
       structs := [recordObject]\<rparr>"

text \<open>
  The program \<open>function f(x) { var a; a[0] = x; } f(5);\<close> and the state in which
  the engine ends on it.
\<close>

definition ni :: "nat \<Rightarrow> string \<Rightarrow> tstype \<Rightarrow> nat option \<Rightarrow> ninfo" where
  "ni p t ty s = \<lparr>npos = p, ntext = t, ntype = ty, nsymbol = s\<rparr>"

definition indexWriteProgram :: node where
  "indexWriteProgram = OtherNode (ni 0 ''function f(x) { var a; a[0] = x; } f(5);'' TsOther None)
    [FunctionDeclaration (ni 0 ''function f(x) { var a; a[0] = x; }'' TsOther None)
       [Identifier (ni 9 ''f'' TsOther (Some 0))]
       [Parameter (ni 11 ''x'' TsAny None) (Identifier (ni 11 ''x'' TsAny (Some 11))) None]
       [OtherNode (ni 14 ''{ var a; a[0] = x; }'' TsOther None)
          [OtherNode (ni 16 ''var a;'' TsOther None)
             [VariableDeclarationList (ni 16 ''var a'' TsOther None)
                [VariableDeclaration (ni 19 ''a'' TsAny None)
                   (Identifier (ni 19 ''a'' TsAny (Some 19))) None]],
           OtherNode (ni 22 ''a[0] = x;'' TsOther None)
             [BinaryExpression (ni 22 ''a[0] = x'' TsAny None)
                (ElementAccessExpression (ni 22 ''a[0]'' TsAny None)
                   (Identifier (ni 22 ''a'' TsAny (Some 19)))
                   (NumericLiteral (ni 25 ''0'' TsNumber None)))
                (EqualsToken (ni 27 ''='' TsOther None))
                (Identifier (ni 29 ''x'' TsAny (Some 11)))]]],
     OtherNode (ni 35 ''f(5);'' TsOther None)
       [CallExpression (ni 35 ''f(5)'' TsOther None)
          (Identifier (ni 35 ''f'' TsOther (Some 0)))
          [NumericLiteral (ni 38 ''5'' TsNumber None)]]]"

text \<open>Of a final state: each variable's name, final type and allocation flag.\<close>

definition finalTypes :: "(error + TypeHelper) option \<Rightarrow> (string \<times> ctype \<times> bool) list" where
  "finalTypes r =
     (case r of
        Some (Inr st) \<Rightarrow> map (\<lambda>(k, v). (name v, type v, requiresAllocation v)) (variables st)
      | _ \<Rightarrow> [])"

definition finalArrays :: "(error + TypeHelper) option \<Rightarrow> ArrayType list" where
  "finalArrays r = (case r of Some (Inr st) \<Rightarrow> arrays st | _ \<Rightarrow> [])"








text \<open>
  The program

  \<^verbatim>\<open>declare function g(): {struct: {q: number}};\<close>
  \<^verbatim>\<open>declare var xstructx: string;\<close>
  \<^verbatim>\<open>function f(x) {}\<close>
  \<^verbatim>\<open>({struct: {w: 1}});\<close>
  \<^verbatim>\<open>f((g())[xstructx]);\<close>

  The argument of the call of \<open>f\<close> has the apparent type \<open>any\<close>, so the call site
  holds a promise over it; its receiver \<open>(g())\<close> is a parenthesized expression of the
  object type \<open>{struct: {q: number}}\<close>.
\<close>

definition shapeQ :: tstype where "shapeQ = TsObject [TsProp ''q'' ''q'' TsNumber None]"
definition shapeW :: tstype where "shapeW = TsObject [TsProp ''w'' ''w'' TsNumber None]"
definition shapeStructQ :: tstype where "shapeStructQ = TsObject [TsProp ''struct'' ''struct'' shapeQ None]"
definition shapeStructW :: tstype where "shapeStructW = TsObject [TsProp ''struct'' ''struct'' shapeW None]"

definition promisedNode :: node where
  "promisedNode =
     ElementAccessExpression (ni 114 ''(g())[xstructx]'' TsAny None)
       (OtherNode (ni 114 ''(g())'' shapeStructQ None)
          [CallExpression (ni 115 ''g()'' shapeStructQ None)
             (Identifier (ni 115 ''g'' TsOther (Some 0))) []])
       (Identifier (ni 120 ''xstructx'' TsString (Some 56)))"

definition renamingProgram :: node where
  "renamingProgram = OtherNode (ni 0 ''declare function g(): {struct: {q: number}}; declare var xstructx: string; function f(x) {} ({struct: {w: 1}}); f((g())[xstructx]);'' TsOther None)
    [FunctionDeclaration (ni 0 ''declare function g(): {struct: {q: number}};'' TsOther None)
       [OtherNode (ni 0 ''declare'' TsOther None) [],
        Identifier (ni 16 ''g'' TsOther (Some 0))]
       []
       [OtherNode (ni 21 ''{struct: {q: number}}'' shapeStructQ None)
          [OtherNode (ni 23 ''struct: {q: number}'' TsOther None)
             [Identifier (ni 23 ''struct'' shapeQ (Some 23)),
              OtherNode (ni 30 ''{q: number}'' shapeQ None)
                [OtherNode (ni 32 ''q: number'' TsOther None)
                   [Identifier (ni 32 ''q'' TsNumber (Some 32)),
                    OtherNode (ni 34 ''number'' TsNumber None) []]]]]],
     OtherNode (ni 44 ''declare var xstructx: string;'' TsOther None)
       [OtherNode (ni 44 ''declare'' TsOther None) [],
        VariableDeclarationList (ni 52 ''var xstructx: string'' TsOther None)
          [VariableDeclaration (ni 56 ''xstructx: string'' TsString None)
             (Identifier (ni 56 ''xstructx'' TsString (Some 56))) None]],
     FunctionDeclaration (ni 74 ''function f(x) {}'' TsOther None)
       [Identifier (ni 83 ''f'' TsOther (Some 74))]
       [Parameter (ni 86 ''x'' TsAny None) (Identifier (ni 86 ''x'' TsAny (Some 86))) None]
       [OtherNode (ni 88 ''{}'' TsOther None) []],
     OtherNode (ni 91 ''({struct: {w: 1}});'' TsOther None)
       [OtherNode (ni 91 ''({struct: {w: 1}})'' shapeStructW None)
          [ObjectLiteralExpression (ni 93 ''{struct: {w: 1}}'' shapeStructW None)
             [OtherNode (ni 94 ''struct: {w: 1}'' TsOther None)
                [Identifier (ni 94 ''struct'' shapeW (Some 94)),
                 ObjectLiteralExpression (ni 101 ''{w: 1}'' shapeW None)
                   [OtherNode (ni 103 ''w: 1'' TsOther None)
                      [Identifier (ni 103 ''w'' TsNumber (Some 103)),
                       NumericLiteral (ni 105 ''1'' TsNumber None)]]]]]],
     OtherNode (ni 111 ''f((g())[xstructx]);'' TsOther None)
       [CallExpression (ni 111 ''f((g())[xstructx])'' TsOther None)
          (Identifier (ni 111 ''f'' TsOther (Some 74)))
          [promisedNode]]]"


text \<open>
  The states of the loop on this program. After \<open>n\<close> passes the table of records
  holds the two records of the object literal and one entry \<open>struct_j_t\<close> for every
  pass, the store holds two record objects for every pass, and the evidence set of
  the parameter \<open>x\<close> holds one entry for every pass.
\<close>

definition recordName :: "nat \<Rightarrow> string" where
  "recordName j = ''struct_'' @ showNat j @ ''_t''"

definition recordText :: "nat \<Rightarrow> string" where
  "recordText j = ''struct '' @ recordName j @ '' *''"

definition innerRecord :: "nat \<Rightarrow> StructType" where
  "innerRecord j = \<lparr>structName = recordText j, properties = [(''q'', Str ''int16_t'')]\<rparr>"

definition outerRecord :: "nat \<Rightarrow> nat \<Rightarrow> StructType" where
  "outerRecord j a = \<lparr>structName = recordText j, properties = [(''struct'', StructRef a)]\<rparr>"

fun loopTable :: "nat \<Rightarrow> (string \<times> nat) list" where
  "loopTable 0 = [(''struct_t'', 0), (''struct_0_t'', 1)]"
| "loopTable (Suc n) = loopTable n @ [(recordName (n + 2), 2 * n + 3)]"

fun loopRecords :: "nat \<Rightarrow> StructType list" where
  "loopRecords 0 =
     [\<lparr>structName = ''struct struct_t *'', properties = [(''w'', Str ''int16_t'')]\<rparr>,
      \<lparr>structName = ''struct struct_0_t *'', properties = [(''struct'', StructRef 0)]\<rparr>]"
| "loopRecords (Suc n) =
     loopRecords n @ [innerRecord (n + 2), outerRecord (n + 2) (2 * n + 2)]"

fun loopEvidence :: "nat \<Rightarrow> (string \<times> ctype) list" where
  "loopEvidence 0 = [(''void *'', Str ''void *'')]"
| "loopEvidence (Suc n) = loopEvidence n @ [(recordText (n + 2), StructRef (2 * n + 2))]"

definition plainData :: "tstype \<Rightarrow> (string \<times> ctype) list \<Rightarrow> VariableData" where
  "plainData tsT ev = (newVariableData tsT)\<lparr>assignmentTypes := ev\<rparr>"

definition loopData :: "nat \<Rightarrow> (nat \<times> VariableData) list" where
  "loopData n =
     [(0, plainData TsOther []),
      (23, plainData shapeQ []),
      (32, plainData TsNumber []),
      (56, plainData TsString [(''const char *'', Str ''const char *'')]),
      (74, plainData TsOther []),
      (86, (plainData TsAny (loopEvidence n))
             \<lparr>parameterIndex := Some 0, parameterFuncDeclPos := Some 75\<rparr>),
      (94, plainData shapeW []),
      (103, plainData TsNumber [])]"

definition variable :: "string \<Rightarrow> ctype \<Rightarrow> nat list \<Rightarrow> nat \<Rightarrow> bool \<Rightarrow> VariableInfo" where
  "variable nm t refs declPos alloc =
     \<lparr>name = nm, type = t, references = refs, declarationPos = declPos,
      requiresAllocation = alloc\<rparr>"

definition variablesOf :: "ctype \<Rightarrow> ctype \<Rightarrow> ctype \<Rightarrow> bool \<Rightarrow> (nat \<times> VariableInfo) list" where
  "variablesOf t tk tx ax =
     [(0, variable ''g'' t [16, 115] 0 False),
      (23, variable ''struct'' t [23] 23 False),
      (32, variable ''q'' t [32] 32 False),
      (56, variable ''xstructx'' tk [56, 120] 56 False),
      (74, variable ''f'' t [83, 111] 74 False),
      (86, variable ''x'' tx [86] 86 ax),
      (94, variable ''struct'' t [94] 94 False),
      (103, variable ''w'' t [103] 103 False)]"

definition stateOf :: "(nat \<times> VariableInfo) list \<Rightarrow> bool \<Rightarrow> nat \<Rightarrow> TypeHelper" where
  "stateOf vars r n =
     \<lparr>variables = vars, userStructs = loopTable n, variablesData = loopData n,
      functionCallsData = [(75, [P ((newTypePromise promisedNode (ElementB False))\<lparr>resolved := r\<rparr>)])],
      functionReturnsData = [], functionReturnTypes = [], functionPrototypes = [],
      arrayLiteralsTypes = [],
      objectLiteralsTypes = [(93, StructRef 1), (101, StructRef 0)],
      temporaryVariables = [], arrays = [], structs = loopRecords n\<rparr>"

definition loopState :: "nat \<Rightarrow> TypeHelper" where
  "loopState n =
     stateOf (variablesOf (Str ''void *'') (Str ''const char *'') (Str ''struct js_var *'') True)
       True n"

section \<open>Rendering a type source: when it throws\<close>

text \<open>Rendering a type value returns exactly when the value is well formed.\<close>

lemma getTextB_wf_iff: "(\<exists>s. getTextB n ah sh t = Inr s) \<longleftrightarrow> wfTypeB n ah sh t"
  by (induction n ah sh t rule: getTextB.induct)
     (auto simp: deref_def ebind_def split: sum.splits)

lemma typeText_wf_iff: "(\<exists>s. typeText st t = Inr s) \<longleftrightarrow> wfType st t"
  by (simp add: wfType_def typeText_def getText_def getTextB_wf_iff)

text \<open>
  Claim C9, as amended. \<open>getTypeString\<close> throws exactly when a source-conversion
  step throws, or the value it has after these steps is none of an \<open>ArrayType\<close>, a
  \<open>StructType\<close>, a \<open>DictType\<close> and a string, or that value is one whose
  \<open>getText()\<close> throws: an array or a dictionary whose chain of element types reaches
  a value without a \<open>getText\<close> (\<open>null\<close>, \<open>undefined\<close> or another value that is
  no \<open>CType\<close>) or does not end. A value that is none of the four kinds
  gives the error \<open>Unrecognized type source\<close>. An array, a record or a dictionary
  gives its \<open>getText()\<close> rendering when that returns and the error of \<open>getText()\<close>
  otherwise, and a string gives the string itself.
\<close>

theorem getTypeString_throws_iff:
  "((\<exists>e. getTypeString source st = Inl e) \<longleftrightarrow>
      (case convertSource source st of
         Inl e \<Rightarrow> True
       | Inr (v, st1) \<Rightarrow> noneOfFour v \<or> (\<exists>t. v = Some t \<and> \<not> wfType st1 t)))
   \<and> (\<forall>v st1. convertSource source st = Inr (v, st1) \<and> noneOfFour v
         \<longrightarrow> getTypeString source st = Inl UnrecognizedTypeSource)
   \<and> (\<forall>t st1. convertSource source st = Inr (Some t, st1)
           \<and> (isArrayType t \<or> isStructType t \<or> isDictType t)
         \<longrightarrow> (if wfType st1 t
              then \<exists>s. typeText st1 t = Inr s \<and> getTypeString source st = Inr (s, st1)
              else \<exists>e. typeText st1 t = Inl e \<and> getTypeString source st = Inl e))
   \<and> (\<forall>s st1. convertSource source st = Inr (Some (Str s), st1)
         \<longrightarrow> getTypeString source st = Inr (s, st1))"
proof (cases "convertSource source st")
  case (Inl e)
  then show ?thesis by (simp add: getTypeString_def ebind_def)
next
  case (Inr r)
  obtain v st1 where r: "r = (v, st1)" by (cases r)
  show ?thesis
  proof (cases v)
    case None
    with Inr r show ?thesis by (simp add: getTypeString_def ebind_def)
  next
    case (Some t)
    show ?thesis
    proof (cases "wfType st1 t")
      case True
      then obtain s where s: "typeText st1 t = Inr s" using typeText_wf_iff by blast
      with True Inr r Some show ?thesis
        by (cases t)
           (simp_all add: getTypeString_def ebind_def typeText_def getText_def wfType_def)
    next
      case False
      then have "\<nexists>s. typeText st1 t = Inr s" using typeText_wf_iff by blast
      then obtain e where e: "typeText st1 t = Inl e" by (cases "typeText st1 t") auto
      with False Inr r Some show ?thesis
        by (cases t)
           (simp_all add: getTypeString_def ebind_def typeText_def getText_def wfType_def)
    qed
  qed
qed

lemma showNat_3: "showNat 3 = ''3''"
  by (simp add: showNat.simps digit_def)

theorem getTypeString_throws_iff_witness:
  "getTypeString (CTypeSource (ArrayRef 0)) exampleArrayState
     = Inr (''static int16_t {var}[3]'', exampleArrayState)
   \<and> getTypeString OtherSource exampleArrayState = Inl UnrecognizedTypeSource
   \<and> (\<exists>e. getTypeString (CTypeSource (ArrayRef 0)) undefinedElementState = Inl e)"
proof -
  have c: "convertSource (CTypeSource (ArrayRef 0)) exampleArrayState
             = Inr (Some (ArrayRef 0), exampleArrayState)"
    by simp
  have w: "wfType exampleArrayState (ArrayRef 0)"
    by (simp add: wfType_def exampleArrayState_def emptyTypeHelper_def)
  have t: "typeText exampleArrayState (ArrayRef 0) = Inr ''static int16_t {var}[3]''"
    by (simp add: typeText_def getText_def exampleArrayState_def emptyTypeHelper_def
        deref_def ebind_def showNat_3 NumberVarType_def)
  have c2: "convertSource (CTypeSource (ArrayRef 0)) undefinedElementState
             = Inr (Some (ArrayRef 0), undefinedElementState)"
    by simp
  have w2: "\<not> wfType undefinedElementState (ArrayRef 0)"
    by (simp add: wfType_def undefinedElementState_def emptyTypeHelper_def)
  from getTypeString_throws_iff[of "CTypeSource (ArrayRef 0)" exampleArrayState] c w t
  have "getTypeString (CTypeSource (ArrayRef 0)) exampleArrayState
          = Inr (''static int16_t {var}[3]'', exampleArrayState)"
    by auto
  moreover from getTypeString_throws_iff[of OtherSource exampleArrayState]
  have "getTypeString OtherSource exampleArrayState = Inl UnrecognizedTypeSource"
    by simp
  moreover from getTypeString_throws_iff[of "CTypeSource (ArrayRef 0)" undefinedElementState] c2 w2
  have "\<exists>e. getTypeString (CTypeSource (ArrayRef 0)) undefinedElementState = Inl e"
    by auto
  ultimately show ?thesis by simp
qed

text \<open>
  The claim as stated fails for an array whose element type is \<open>undefined\<close>: the
  value is an \<open>ArrayType\<close>, and \<open>getTypeString\<close> throws the \<open>TypeError\<close> of its
  \<open>getText()\<close>.
\<close>

theorem getTypeString_throws_iff_counterexample:
  "convertSource (CTypeSource (ArrayRef 0)) undefinedElementState
     = Inr (Some (ArrayRef 0), undefinedElementState)
   \<and> isArrayType (ArrayRef 0)
   \<and> getTypeString (CTypeSource (ArrayRef 0)) undefinedElementState = Inl TypeError"
  by (simp add: getTypeString_def ebind_def typeText_def getText_def undefinedElementState_def
      emptyTypeHelper_def deref_def)

section \<open>The local type deriver: when it promises\<close>

text \<open>
  Claim C7. For a right-hand side that is neither an object literal nor an array
  literal, \<open>determineType\<close> returns a promise over the right-hand side when the
  converted type is the opaque-pointer or the universal fallback and the right-hand
  side is a property access, an element access, an identifier or a call expression;
  in every other case it returns the converted type itself, fallback included.
\<close>

theorem determineType_promise:
  assumes "\<not> isObjectLiteral (Some right)" and "\<not> isArrayLiteral right"
  shows "determineType left (Some right) st =
     (case convertType (getTypeAtLocation right) (map_option nodeText left) st of
        Inl e \<Rightarrow> Inl e
      | Inr (t, st1) \<Rightarrow>
          Inr (if isFallback t \<and> (isPropertyAccess right \<or> isElementAccess right
                                  \<or> isIdentifier right \<or> isCallExpression right)
               then P \<lparr>resolved = False, associatedProperty = None, arrayOf = False,
                       associatedNode = right, element = ElementB False\<rparr>
               else T t, st1))"
  using assms
  by (cases right)
     (auto simp: ebind_def isFallback_def newTypePromise_def split: sum.splits)

theorem determineType_promise_witness:
  "determineType None (Some anyIdentifier) emptyTypeHelper =
     Inr (P \<lparr>resolved = False, associatedProperty = None, arrayOf = False,
             associatedNode = anyIdentifier, element = ElementB False\<rparr>, emptyTypeHelper)
   \<and> determineType None (Some anyParenthesized) emptyTypeHelper =
     Inr (T (Str PointerVarType), emptyTypeHelper)"
proof -
  have a: "\<not> isObjectLiteral (Some anyIdentifier)" "\<not> isArrayLiteral anyIdentifier"
    by (simp_all add: anyIdentifier_def)
  have b: "\<not> isObjectLiteral (Some anyParenthesized)" "\<not> isArrayLiteral anyParenthesized"
    by (simp_all add: anyParenthesized_def)
  have ta: "getTypeAtLocation anyIdentifier = TsAny" "isIdentifier anyIdentifier"
    by (simp_all add: anyIdentifier_def getTypeAtLocation_def)
  have tb: "getTypeAtLocation anyParenthesized = TsAny"
    "\<not> isPropertyAccess anyParenthesized" "\<not> isElementAccess anyParenthesized"
    "\<not> isIdentifier anyParenthesized" "\<not> isCallExpression anyParenthesized"
    by (simp_all add: anyParenthesized_def getTypeAtLocation_def)
  from determineType_promise[OF a, of None emptyTypeHelper] ta
  have "determineType None (Some anyIdentifier) emptyTypeHelper =
     Inr (P \<lparr>resolved = False, associatedProperty = None, arrayOf = False,
             associatedNode = anyIdentifier, element = ElementB False\<rparr>, emptyTypeHelper)"
    by (simp add: isFallback_def convertType.simps)
  moreover from determineType_promise[OF b, of None emptyTypeHelper] tb
  have "determineType None (Some anyParenthesized) emptyTypeHelper =
     Inr (T (Str PointerVarType), emptyTypeHelper)"
    by (simp add: isFallback_def convertType.simps)
  ultimately show ?thesis by simp
qed

section \<open>The symbolic node evaluator: what it leaves unchanged\<close>

lemma framed_refl: "framed st st"
  by (simp add: framed_def)

lemma framed_trans: "framed a b \<Longrightarrow> framed b c \<Longrightarrow> framed a c"
  unfolding framed_def
  by (metis (no_types, lifting) length_take min.absorb2 nat_le_linear take_all take_take
      min.commute)

lemma registerStructure_framed:
  "registerStructure nm props st = Inr (t, st') \<Longrightarrow> framed st st'"
  by (auto simp: registerStructure_def ebind_def framed_def split: sum.splits option.splits if_splits)

lemma convert_framed:
  "(\<forall>t st'. convertType tsT ident st = Inr (t, st') \<longrightarrow> framed st st')"
  "(\<forall>t st'. generateStructure tsT2 ident2 st2 = Inr (t, st') \<longrightarrow> framed st2 st')"
  "(\<forall>i st'. structInfo props acc st3 = Inr (i, st') \<longrightarrow> framed st3 st')"
  "(\<forall>t st'. determineArrayType lit st4 = Inr (t, st') \<longrightarrow> framed st4 st')"
proof (induction tsT ident st and tsT2 ident2 st2 and props acc st3 and lit st4
       rule: convertType_generateStructure_structInfo_determineArrayType.induct)
  case (1 tsT ident st)
  then show ?case by (cases tsT) (auto simp: framed_refl convertType.simps)
next
  case (2 tsT ident st)
  then show ?case
    by (auto simp: ebind_def generateStructure.simps split: sum.splits
        dest: registerStructure_framed framed_trans)
next
  case (3 userStructInfo st)
  then show ?case by (simp add: framed_refl)
next
  case (4 pr props userStructInfo st)
  show ?case
  proof (intro allI impI)
    fix i st'
    assume r: "structInfo (pr # props) userStructInfo st = Inr (i, st')"
    then obtain pt st1 where c: "convertType (propType pr) (Some (propDeclName pr)) st = Inr (pt, st1)"
      by (auto simp: ebind_def split: sum.splits)
    then have f1: "framed st st1" using 4(1) by blast
    let ?m = "if pt = Str UniversalVarType
              then (case propArrayInit pr of
                      Some arrLiteral \<Rightarrow> determineArrayType arrLiteral st1
                    | None \<Rightarrow> Inr (pt, st1))
              else Inr (pt, st1)"
    from r c obtain pt2 st2 where m: "?m = Inr (pt2, st2)"
      and s: "structInfo props (dset (propName pr) pt2 userStructInfo) st2 = Inr (i, st')"
      by (auto simp: ebind_def split: sum.splits)
    have f2: "framed st1 st2"
    proof (cases "pt = Str UniversalVarType")
      case True
      show ?thesis
      proof (cases "propArrayInit pr")
        case None
        with True m show ?thesis by (simp add: framed_refl)
      next
        case (Some lit)
        with True m have "determineArrayType lit st1 = Inr (pt2, st2)" by simp
        with 4(2)[OF True Some] show ?thesis by blast
      qed
    next
      case False
      with m show ?thesis by (simp add: framed_refl)
    qed
    have f3: "framed st2 st'"
      using 4(3) s by blast
    from f1 f2 f3 show "framed st st'" by (blast intro: framed_trans)
  qed
next
  case (5 litPos cap firstType st)
  show ?case
  proof (intro allI impI)
    fix t st'
    assume r: "determineArrayType (litPos, cap, firstType) st = Inr (t, st')"
    show "framed st st'"
    proof (cases "cap > 0")
      case True
      with r[unfolded determineArrayType.simps]
      obtain et st1 where c: "convertType firstType None st = Inr (et, st1)"
        and e: "st' = st1\<lparr>arrays := arrays st1 @
                         [\<lparr>elementType = et, capacity = cap, isDynamicArray = False\<rparr>],
                       arrayLiteralsTypes :=
                         nset litPos (ArrayRef (length (arrays st1))) (arrayLiteralsTypes st1)\<rparr>"
        by (auto simp: ebind_def split: sum.splits)
      from 5[OF True] c have "framed st st1" by blast
      moreover from e have "framed st1 st'" by (simp add: framed_def)
      ultimately show ?thesis by (rule framed_trans)
    next
      case False
      with r show ?thesis by (simp add: framed_refl determineArrayType.simps)
    qed
  qed
qed

lemma convertType_no_properties:
  "getProperties tsT = [] \<Longrightarrow> convertType tsT ident st = Inr (t, st') \<Longrightarrow> st' = st"
  by (cases tsT) (auto simp: convertType.simps)

lemma getCType_framed:
  "getCType n st = Inr (t, st') \<Longrightarrow> framed st st'"
proof (induction n st arbitrary: t st' rule: getCType.induct)
  case (7 i expression argumentExpression st)
  from 7(2) obtain pt st1 where e: "getCType expression st = Inr (pt, st1)"
    by (auto simp: ebind_def split: sum.splits)
  with 7(1) have "framed st st1" by blast
  moreover from 7(2) e have "st' = st1"
    by (auto simp: ebind_def split: sum.splits ctype.splits)
  ultimately show ?case by simp
next
  case (8 i expression nm st)
  from 8(2) obtain pt st1 where e: "getCType expression st = Inr (pt, st1)"
    by (auto simp: ebind_def split: sum.splits)
  with 8(1) have "framed st st1" by blast
  moreover from 8(2) e have "st' = st1"
    by (auto simp: ebind_def split: sum.splits ctype.splits if_splits)
  ultimately show ?case by simp
next
  case (9 i pi expression nm arguments st)
  show ?case
  proof (cases "(nodeText nm = ''pop'' \<and> length arguments = 0)
         \<or> (nodeText nm = ''push'' \<and> length arguments = 1)
         \<or> (nodeText nm = ''indexOf'' \<and> length arguments = 1)")
    case True
    with 9(4) obtain pt st1 where e: "getCType expression st = Inr (pt, st1)"
      by (auto simp: ebind_def split: sum.splits if_splits)
    with 9(1,2,3) True have "framed st st1" by (metis (no_types, lifting))
    moreover from 9(4) e True have "st' = st1"
      by (auto simp: ebind_def split: sum.splits ctype.splits if_splits)
    ultimately show ?thesis by simp
  next
    case False
    with 9(4) show ?thesis by (auto simp: framed_refl split: if_splits)
  qed
qed (auto simp: ebind_def framed_refl split: sum.splits option.splits if_splits
          dest: convert_framed(1)[rule_format])

lemma getCType_pure:
  "getProperties (getTypeAtLocation (receiver n)) = [] \<Longrightarrow> getCType n st = Inr (t, st')
   \<Longrightarrow> st' = st"
proof (induction n st arbitrary: t st' rule: getCType.induct)
  case (7 i expression argumentExpression st)
  from 7(3) obtain pt st1 where e: "getCType expression st = Inr (pt, st1)"
    by (auto simp: ebind_def split: sum.splits)
  with 7(1) 7(2) have "st1 = st" by simp
  moreover from 7(3) e have "st' = st1"
    by (auto simp: ebind_def split: sum.splits ctype.splits)
  ultimately show ?case by simp
next
  case (8 i expression nm st)
  from 8(3) obtain pt st1 where e: "getCType expression st = Inr (pt, st1)"
    by (auto simp: ebind_def split: sum.splits)
  with 8(1) 8(2) have "st1 = st" by simp
  moreover from 8(3) e have "st' = st1"
    by (auto simp: ebind_def split: sum.splits ctype.splits if_splits)
  ultimately show ?case by simp
next
  case (9 i pi expression nm arguments st)
  show ?case
  proof (cases "(nodeText nm = ''pop'' \<and> length arguments = 0)
         \<or> (nodeText nm = ''push'' \<and> length arguments = 1)
         \<or> (nodeText nm = ''indexOf'' \<and> length arguments = 1)")
    case True
    with 9(5) obtain pt st1 where e: "getCType expression st = Inr (pt, st1)"
      by (auto simp: ebind_def split: sum.splits if_splits)
    from True 9(4) have "getProperties (getTypeAtLocation (receiver expression)) = []"
      by auto
    with 9(1,2,3) True e have "st1 = st" by (metis (no_types, lifting))
    moreover from 9(5) e True have "st' = st1"
      by (auto simp: ebind_def split: sum.splits ctype.splits if_splits)
    ultimately show ?thesis by simp
  next
    case False
    with 9(5) show ?thesis by (auto split: if_splits)
  qed
qed (auto simp: ebind_def split: sum.splits option.splits if_splits
          dest: convertType_no_properties)

text \<open>
  Claim C8, as amended. \<open>getCType\<close> leaves the tables \<open>variables\<close>,
  \<open>variablesData\<close>, \<open>functionCallsData\<close>, \<open>functionReturnsData\<close>,
  \<open>functionReturnTypes\<close>, \<open>objectLiteralsTypes\<close> and \<open>temporaryVariables\<close> as they
  were and changes no existing array or record object; and it changes nothing at all
  unless the node its recursion through receivers ends at has an apparent type that
  is an object type with properties, which \<open>convertType\<close> then registers as a record.
\<close>

theorem getCType_frame:
  "getCType n st = Inr (t, st') \<Longrightarrow>
     framed st st' \<and> (getProperties (getTypeAtLocation (receiver n)) = [] \<longrightarrow> st' = st)"
  using getCType_framed getCType_pure by blast

lemma showNat_0: "showNat 0 = ''0''"
  by (simp add: showNat.simps digit_def)

lemma getCType_objectTypedNode:
  "getCType objectTypedNode emptyTypeHelper = Inr (StructRef 0, objectTypedResult)"
  by (simp add: objectTypedNode_def objectTypedResult_def emptyTypeHelper_def
      getTypeAtLocation_def ebind_def convertType.simps generateStructure.simps
      chooseStructName_def registerStructure_def getStructureBodyString_def showNat_0
      UniversalVarType_def PointerVarType_def NumberVarType_def)

theorem getCType_frame_witness:
  "framed emptyTypeHelper objectTypedResult
   \<and> getCType (NumericLiteral \<lparr>npos = 0, ntext = ''1'', ntype = TsNumber, nsymbol = None\<rparr>)
         objectTypedResult = Inr (Str NumberVarType, objectTypedResult)"
  using getCType_frame[OF getCType_objectTypedNode] by simp

text \<open>
  The claim as stated fails: in the default branch, on a node whose apparent type is
  an object type with a property, \<open>getCType\<close> registers a record.
\<close>

theorem getCType_pure_counterexample:
  "getCType objectTypedNode emptyTypeHelper = Inr (StructRef 0, objectTypedResult)
   \<and> userStructs objectTypedResult = [(''struct_0_t'', 0)]
   \<and> userStructs emptyTypeHelper = []"
  by (simp add: getCType_objectTypedNode) (simp add: objectTypedResult_def emptyTypeHelper_def)

section \<open>Record registration: deduplication\<close>

lemma deref_append: "deref h a = Some x \<Longrightarrow> deref (h @ xs) a = Some x"
  by (auto simp: deref_def nth_append split: if_splits)

lemma map_of_dupd:
  "map_of (dupd k v kvs) k' = (if k' = k then Some v else map_of kvs k')"
  by (induction kvs) auto

lemma map_of_insertIndex:
  "map_of (insertIndex k v kvs) k' = (if k' = k then Some v else map_of kvs k')"
  by (induction kvs) auto

lemma map_of_dset: "map_of (dset k v kvs) k = Some v"
  by (simp add: dset_def map_of_dupd map_of_insertIndex)

text \<open>
  A shape without properties is never looked up in the table (the guard of line 733):
  every registration of it creates a record.
\<close>

lemma generateStructure_no_properties:
  "generateStructure (TsObject []) ident st
     = Inr (StructRef (length (structs st)),
            st\<lparr>structs := structs st @
                  [\<lparr>structName = ''struct '' @ chooseStructName st ident @ '' *'',
                    properties = []\<rparr>],
                userStructs :=
                  dset (chooseStructName st ident) (length (structs st)) (userStructs st)\<rparr>)"
  by (simp add: generateStructure.simps ebind_def registerStructure_def
      getStructureBodyString_def)

text \<open>
  Claim C2 does not hold of the code. Registering a shape identical to a registered
  one can create a new record. In the table that holds the two records of
  \<open>{struct: {w: number}}\<close>, the type \<open>{struct: {q: number}}\<close> is registered twice
  in a row, as the default branch of \<open>getCType\<close> does for a parenthesized expression
  of that type. The first call returns the record at address 3, which stays in the
  table under \<open>struct_2_t\<close>; the second call returns a new record, at address 5.
  The record of the property \<open>struct\<close> is created twice as well, at the addresses 2
  and 4, with the same body text: the first one is no longer in the table when the
  second call looks for it, because the outer record was stored under the same name
  \<open>struct_2_t\<close> (the default name, which is not tested for a collision).
\<close>

theorem generateStructure_registers_again:
  "generateStructure shapeStructW None emptyTypeHelper = Inr (StructRef 1, registeredW)
   \<and> generateStructure shapeStructQ None registeredW = Inr (StructRef 3, registeredOnce)
   \<and> map_of (userStructs registeredOnce) ''struct_2_t'' = Some 3
   \<and> 2 \<notin> snd ` set (userStructs registeredOnce)
   \<and> generateStructure shapeStructQ None registeredOnce = Inr (StructRef 5, registeredTwice)
   \<and> getStructureBodyString registeredTwice (properties (structs registeredTwice ! 2))
       = getStructureBodyString registeredTwice (properties (structs registeredTwice ! 4))"
  by code_simp

section \<open>The evidence collector: return statements\<close>

lemma map_of_sset:
  "map_of (sset k v kvs) k' = (if k' = k then Some v else map_of kvs k')"
  by (induction kvs) (auto split: scopeId.splits)


lemma determineType_framed:
  "determineType left right st = Inr (d, st') \<Longrightarrow>
     variables st' = variables st \<and> variablesData st' = variablesData st
     \<and> functionCallsData st' = functionCallsData st
     \<and> functionReturnsData st' = functionReturnsData st
     \<and> functionReturnTypes st' = functionReturnTypes st"
proof (induction left right st rule: determineType.induct)
  case (1 left i ps st)
  then show ?case
    using convert_framed(2)[rule_format, of "ntype i" "map_option nodeText left" st]
    by (auto simp: ebind_def framed_def split: sum.splits)
next
  case (2 left i es st)
  then show ?case
    using convert_framed(4)[rule_format, of "arrayLiteralView (ArrayLiteralExpression i es)" st]
    by (auto simp: ebind_def framed_def split: sum.splits)
qed (auto simp: ebind_def framed_def split: sum.splits if_splits
      dest!: convert_framed(1)[rule_format])

lemma kept_iff: "kept x \<longleftrightarrow> \<not> replaceable x"
  by (cases x rule: kept.cases) auto

text \<open>
  Claim C4, as amended. A return statement with an expression derives the
  expression's type, a fallback type becoming a promise over the expression, and
  records it as the return evidence of the enclosing function unless the evidence
  already there is a type other than the universal fallback, which is kept. A bare
  return sets the return evidence to \<open>void\<close>, whatever was there. No other
  function's return evidence changes.
\<close>

theorem visitReturn_merge:
  "(\<forall>e st' d st1.
      visitReturn chain (Some e) st = Inr st' \<and> determineType None (Some e) st = Inr (d, st1)
      \<longrightarrow> map_of (functionReturnsData st') (scopeOf chain) =
            (if kept (map_of (functionReturnsData st) (scopeOf chain))
             then map_of (functionReturnsData st) (scopeOf chain)
             else Some (if d = T (Str UniversalVarType) \<or> d = T (Str PointerVarType)
                        then P (newTypePromise e (ElementB False)) else d))
          \<and> (\<forall>k. k \<noteq> scopeOf chain
                \<longrightarrow> map_of (functionReturnsData st') k = map_of (functionReturnsData st) k))
   \<and> (\<exists>st'. visitReturn chain None st = Inr st'
          \<and> map_of (functionReturnsData st') (scopeOf chain) = Some (T (Str ''void''))
          \<and> (\<forall>k. k \<noteq> scopeOf chain
                \<longrightarrow> map_of (functionReturnsData st') k = map_of (functionReturnsData st) k))"
proof (intro conjI allI impI)
  fix e st' d st1
  assume a: "visitReturn chain (Some e) st = Inr st' \<and> determineType None (Some e) st = Inr (d, st1)"
  then have f: "functionReturnsData st1 = functionReturnsData st"
    using determineType_framed by blast
  from a f show "map_of (functionReturnsData st') (scopeOf chain) =
            (if kept (map_of (functionReturnsData st) (scopeOf chain))
             then map_of (functionReturnsData st) (scopeOf chain)
             else Some (if d = T (Str UniversalVarType) \<or> d = T (Str PointerVarType)
                        then P (newTypePromise e (ElementB False)) else d))"
    by (auto simp: visitReturn_def ebind_def Let_def kept_iff map_of_sset split: if_splits)
  fix k assume "k \<noteq> scopeOf chain"
  with a f show "map_of (functionReturnsData st') k = map_of (functionReturnsData st) k"
    by (auto simp: visitReturn_def ebind_def Let_def map_of_sset split: if_splits)
next
  show "\<exists>st'. visitReturn chain None st = Inr st'
          \<and> map_of (functionReturnsData st') (scopeOf chain) = Some (T (Str ''void''))
          \<and> (\<forall>k. k \<noteq> scopeOf chain
                \<longrightarrow> map_of (functionReturnsData st') k = map_of (functionReturnsData st) k)"
    by (simp add: visitReturn_def map_of_sset)
qed

lemma visit_returnFive:
  "visit [functionF] returnFive emptyTypeHelper = Inr afterReturnFive"
  by (simp add: returnFive_def functionF_def visitReturn_def scopeOf_def pos_def ebind_def
      getTypeAtLocation_def convertType.simps NumberVarType_def UniversalVarType_def
      PointerVarType_def emptyTypeHelper_def afterReturnFive_def)

lemma visit_returnBare:
  "visit [functionF] returnBare afterReturnFive = Inr afterReturnBare"
  by (simp add: returnBare_def functionF_def visitReturn_def scopeOf_def pos_def
      emptyTypeHelper_def afterReturnFive_def afterReturnBare_def)

theorem visitReturn_merge_witness:
  "map_of (functionReturnsData afterReturnFive) (scopeOf [returnFive, functionF])
     = Some (T (Str NumberVarType))"
proof -
  have v: "visitReturn [returnFive, functionF]
             (Some (NumericLiteral \<lparr>npos = 20, ntext = ''5'', ntype = TsNumber, nsymbol = None\<rparr>))
             emptyTypeHelper = Inr afterReturnFive"
    using visit_returnFive by (simp add: returnFive_def)
  have d: "determineType None
             (Some (NumericLiteral \<lparr>npos = 20, ntext = ''5'', ntype = TsNumber, nsymbol = None\<rparr>))
             emptyTypeHelper = Inr (T (Str NumberVarType), emptyTypeHelper)"
    by (simp add: ebind_def getTypeAtLocation_def convertType.simps NumberVarType_def
        UniversalVarType_def PointerVarType_def)
  have k: "\<not> kept (map_of (functionReturnsData emptyTypeHelper) (scopeOf [returnFive, functionF]))"
    by (simp add: emptyTypeHelper_def)
  have "map_of (functionReturnsData afterReturnFive) (scopeOf [returnFive, functionF]) =
          (if kept (map_of (functionReturnsData emptyTypeHelper) (scopeOf [returnFive, functionF]))
           then map_of (functionReturnsData emptyTypeHelper) (scopeOf [returnFive, functionF])
           else Some (if T (Str NumberVarType) = T (Str UniversalVarType)
                         \<or> T (Str NumberVarType) = T (Str PointerVarType)
                      then P (newTypePromise
                                (NumericLiteral \<lparr>npos = 20, ntext = ''5'', ntype = TsNumber,
                                                  nsymbol = None\<rparr>) (ElementB False))
                      else T (Str NumberVarType)))"
    using visitReturn_merge[of "[returnFive, functionF]" emptyTypeHelper] v d by blast
  with k show ?thesis
    by (simp add: NumberVarType_def UniversalVarType_def PointerVarType_def)
qed

text \<open>
  The claim as stated fails: a bare return after \<open>return 5;\<close> replaces the evidence
  \<open>int16_t\<close>, which is no fallback, by \<open>void\<close>.
\<close>

theorem visitReturn_merge_counterexample:
  "visit [functionF] returnFive emptyTypeHelper = Inr afterReturnFive
   \<and> functionReturnsData afterReturnFive = [(FuncScope 1, T (Str ''int16_t''))]
   \<and> visit [functionF] returnBare afterReturnFive = Inr afterReturnBare
   \<and> functionReturnsData afterReturnBare = [(FuncScope 1, T (Str ''void''))]"
  by (simp add: visit_returnFive visit_returnBare)
     (simp add: afterReturnFive_def afterReturnBare_def emptyTypeHelper_def NumberVarType_def)

section \<open>The evidence collector: call arguments\<close>

text \<open>
  Claim C5 does not hold of the code. The opaque-pointer fallback recorded for an
  argument position is not superseded by the concrete evidence of a later call, while
  the universal fallback is.
\<close>

theorem callsite_pointer_kept:
  "visit [] (callParenthesized TsAny) emptyTypeHelper = Inr (callsRecorded (Str ''void *''))
   \<and> visit [] callFive (callsRecorded (Str ''void *'')) = Inr (callsRecorded (Str ''void *''))
   \<and> visit [] (callParenthesized TsOther) emptyTypeHelper
       = Inr (callsRecorded (Str ''struct js_var *''))
   \<and> visit [] callFive (callsRecorded (Str ''struct js_var *''))
       = Inr (callsRecorded (Str ''int16_t''))"
  by (simp add: callParenthesized_def callFive_def calleeF_def callsRecorded_def
      visitCall_def getSymbolAtLocation_def getTypeAtLocation_def ebind_def Let_def
      convertType.simps callDataOf_def arraySet_def emptyTypeHelper_def
      UniversalVarType_def PointerVarType_def NumberVarType_def)

section \<open>Bracket writes with a dynamic key and a deferred value\<close>

lemma map_of_updAt:
  "map_of (updAt k f kvs) k' = (if k' = k then map_option f (map_of kvs k) else map_of kvs k')"
  by (induction kvs) (auto simp: updAt_def)

lemma map_of_dset_other: "k' \<noteq> k \<Longrightarrow> map_of (dset k v kvs) k' = map_of kvs k'"
  by (simp add: dset_def map_of_dupd map_of_insertIndex)

lemma getTextB_arrays_append:
  "getTextB n ah sh t = Inr s \<Longrightarrow> n \<le> m \<Longrightarrow> getTextB m (ah @ xs) sh t = Inr s"
proof (induction n ah sh t arbitrary: s m rule: getTextB.induct)
  case (4 n ah sh e)
  then show ?case by (auto simp: ebind_def split: sum.splits)
next
  case (6 n ah sh a)
  from 6(3) obtain m' where m: "m = Suc m'" and le: "n \<le> m'" by (cases m) auto
  from 6(2) obtain arr where d: "deref ah a = Some arr"
    by (auto split: option.splits)
  with 6(2) obtain tx where t: "getTextB n ah sh (elementType arr) = Inr tx"
    by (auto simp: ebind_def split: sum.splits)
  from 6(1)[OF d t le] have "getTextB m' (ah @ xs) sh (elementType arr) = Inr tx" .
  with 6(2) d t m show ?case by (simp add: deref_append ebind_def)
qed auto

lemma determineType_promise_shape:
  "determineType left right st = Inr (P p, st1) \<Longrightarrow>
     \<exists>x. right = Some x \<and> p = newTypePromise x (ElementB False)"
  by (induction left right st rule: determineType.induct)
     (auto simp: ebind_def split: sum.splits if_splits)

lemma writtenType_promise_shape:
  "writtenType ei expression outer st = Inr (P p, st1) \<Longrightarrow>
     \<exists>x. p = newTypePromise x (ElementB False)"
  by (induction ei expression outer st rule: writtenType.induct)
     (auto split: if_splits dest: determineType_promise_shape)

text \<open>
  Claim C10. A bracket write whose key is neither a string literal nor a numeric
  literal and whose right-hand side derives to a promise marks the variable
  \<open>isDict\<close> and appends the promise, tagged \<open>arrayOf\<close>, to the variable's promises;
  the evidence set is not touched, so no record candidate is discarded. When such a
  promise is discharged it adds a dynamic array of the resolved type to the evidence
  set, under the array's text, and leaves the candidates under every other key.
\<close>

theorem dynamicKey_deferred:
  "(\<forall>p st1. pos expression = pos node \<and> \<not> isStringLiteral argumentExpression
        \<and> \<not> isNumericLiteral argumentExpression
        \<and> writtenType ei expression outer st = Inr (P p, st1)
      \<longrightarrow> (\<exists>st'. visitElementAccess node varPos ei expression argumentExpression outer st = Inr st'
             \<and> associatedProperty p = None
             \<and> (\<forall>d. map_of (variablesData st1) varPos = Some d
                  \<longrightarrow> map_of (variablesData st') varPos =
                        Some (d\<lparr>isDict := True,
                                typePromises := typePromises d @ [p\<lparr>arrayOf := True\<rparr>]\<rparr>))))
   \<and> (\<forall>q rt s2 s d. arrayOf q \<and> associatedProperty q = None
        \<and> getCType (associatedNode q) st = Inr (rt, s2) \<and> rt \<noteq> Null
        \<and> typeText s2 rt = Inr s \<and> map_of (variablesData s2) varPos = Some d
      \<longrightarrow> (\<exists>st' d'. resolvePromise varPos j q st = Inr (True, st')
             \<and> deref (arrays st') (length (arrays s2)) =
                 Some \<lparr>elementType = rt, capacity = 0, isDynamicArray = True\<rparr>
             \<and> map_of (variablesData st') varPos = Some d'
             \<and> map_of (assignmentTypes d') (''ARRAY('' @ s @ '')'')
                 = Some (ArrayRef (length (arrays s2)))
             \<and> (\<forall>k. k \<noteq> ''ARRAY('' @ s @ '')''
                  \<longrightarrow> map_of (assignmentTypes d') k = map_of (assignmentTypes d) k)))"
proof (intro conjI allI impI)
  fix p st1
  assume a: "pos expression = pos node \<and> \<not> isStringLiteral argumentExpression
        \<and> \<not> isNumericLiteral argumentExpression
        \<and> writtenType ei expression outer st = Inr (P p, st1)"
  let ?st' = "pushPromise varPos (p\<lparr>arrayOf := True\<rparr>)
                (updVarData varPos (\<lambda>d. d\<lparr>isDict := True\<rparr>) st1)"
  from a have v: "visitElementAccess node varPos ei expression argumentExpression outer st = Inr ?st'"
    by (cases argumentExpression) (simp_all add: visitElementAccess_def ebind_def Let_def)
  from a obtain x where "p = newTypePromise x (ElementB False)"
    using writtenType_promise_shape by blast
  then have n: "associatedProperty p = None" by (simp add: newTypePromise_def)
  have m: "\<forall>d. map_of (variablesData st1) varPos = Some d
                  \<longrightarrow> map_of (variablesData ?st') varPos =
                        Some (d\<lparr>isDict := True,
                                typePromises := typePromises d @ [p\<lparr>arrayOf := True\<rparr>]\<rparr>)"
    by (simp add: pushPromise_def updVarData_def map_of_updAt)
  from v n m
  show "\<exists>st'. visitElementAccess node varPos ei expression argumentExpression outer st = Inr st'
             \<and> associatedProperty p = None
             \<and> (\<forall>d. map_of (variablesData st1) varPos = Some d
                  \<longrightarrow> map_of (variablesData st') varPos =
                        Some (d\<lparr>isDict := True,
                                typePromises := typePromises d @ [p\<lparr>arrayOf := True\<rparr>]\<rparr>))"
    by blast
next
  fix q :: TypePromise and rt s2 s d
  assume b: "arrayOf q \<and> associatedProperty q = None
        \<and> getCType (associatedNode q) st = Inr (rt, s2) \<and> rt \<noteq> Null
        \<and> typeText s2 rt = Inr s \<and> map_of (variablesData s2) varPos = Some d"
  let ?a = "length (arrays s2)"
  let ?new = "\<lparr>elementType = rt, capacity = 0, isDynamicArray = True\<rparr>"
  let ?s3 = "updVarData varPos
               (\<lambda>d. d\<lparr>typePromises := (typePromises d)[j := q\<lparr>resolved := True\<rparr>]\<rparr>) s2"
  let ?s4 = "?s3\<lparr>arrays := arrays ?s3 @ [?new]\<rparr>"
  let ?key = "''ARRAY('' @ s @ '')''"
  let ?st' = "setAssignmentType varPos ?key (ArrayRef ?a) ?s4"
  have p3: "promisedType q rt ?s3 = Inr (ArrayRef ?a, ?s4)"
    using b by (simp add: promisedType_def newArray_def updVarData_def)
  from b have "getTextB (length (arrays s2)) (arrays s2) (structs s2) rt = Inr s"
    by (simp add: typeText_def getText_def)
  from getTextB_arrays_append[OF this le_refl, of "[?new]"]
  have tx: "typeText ?s4 (ArrayRef ?a) = Inr ?key"
    by (simp add: typeText_def getText_def updVarData_def deref_def ebind_def)
  have r: "resolvePromise varPos j q st = Inr (True, ?st')"
    using b p3 tx by (simp add: resolvePromise_def ebind_def Let_def)
  let ?d' = "d\<lparr>typePromises := (typePromises d)[j := q\<lparr>resolved := True\<rparr>],
               assignmentTypes := dset ?key (ArrayRef ?a) (assignmentTypes d)\<rparr>"
  have dr: "deref (arrays ?st') ?a = Some ?new"
    by (simp add: setAssignmentType_def updVarData_def deref_def)
  have vd: "map_of (variablesData ?st') varPos = Some ?d'"
    using b by (simp add: setAssignmentType_def updVarData_def map_of_updAt)
  have k1: "map_of (assignmentTypes ?d') ?key = Some (ArrayRef ?a)"
    by (simp add: map_of_dupd)
  have k2: "\<forall>k. k \<noteq> ?key \<longrightarrow> map_of (assignmentTypes ?d') k = map_of (assignmentTypes d) k"
    by (simp add: map_of_dupd)
  from r dr vd k1 k2
  show "\<exists>st' d'. resolvePromise varPos j q st = Inr (True, st')
             \<and> deref (arrays st') (length (arrays s2)) = Some ?new
             \<and> map_of (variablesData st') varPos = Some d'
             \<and> map_of (assignmentTypes d') ?key = Some (ArrayRef (length (arrays s2)))
             \<and> (\<forall>k. k \<noteq> ?key \<longrightarrow> map_of (assignmentTypes d') k = map_of (assignmentTypes d) k)"
    by blast
qed

theorem dynamicKey_deferred_witness:
  "visitElementAccess objIdent 3 elemInfo objIdent keyIdent [writeNode] objState = Inr objWritten
   \<and> (\<exists>st'. visitElementAccess objIdent 3 elemInfo objIdent keyIdent [writeNode] objState = Inr st'
      \<and> map_of (variablesData st') 3 = Some (objData\<lparr>isDict := True, typePromises := [valuePromise]\<rparr>))
   \<and> (\<exists>st' d'. resolvePromise 3 0 valuePromise objWritten = Inr (True, st')
      \<and> deref (arrays st') 0 = Some \<lparr>elementType = Str NumberVarType, capacity = 0, isDynamicArray = True\<rparr>
      \<and> map_of (variablesData st') 3 = Some d'
      \<and> map_of (assignmentTypes d') ''ARRAY(int16_t)'' = Some (ArrayRef 0)
      \<and> map_of (assignmentTypes d') ''struct obj_t *'' = Some (StructRef 0))"
proof -
  have w: "writtenType elemInfo objIdent [writeNode] objState
             = Inr (P (newTypePromise valueIdent (ElementB False)), objState)"
    by (simp add: writeNode_def elemInfo_def objIdent_def valueIdent_def pos_def
        getTypeAtLocation_def nodeText_def convertType.simps ebind_def
        PointerVarType_def UniversalVarType_def)
  have c: "pos objIdent = pos objIdent \<and> \<not> isStringLiteral keyIdent \<and> \<not> isNumericLiteral keyIdent
        \<and> writtenType elemInfo objIdent [writeNode] objState
            = Inr (P (newTypePromise valueIdent (ElementB False)), objState)"
    using w by (simp add: keyIdent_def)
  have v: "map_of (variablesData objState) 3 = Some objData"
    by (simp add: objState_def emptyTypeHelper_def)
  let ?d = "objData\<lparr>isDict := True, typePromises := [valuePromise]\<rparr>"
  have vw: "map_of (variablesData objWritten) 3 = Some ?d"
    by (simp add: objWritten_def)
  have g: "getCType (associatedNode valuePromise) objWritten = Inr (Str NumberVarType, objWritten)"
    by (simp add: valuePromise_def newTypePromise_def valueIdent_def getVariableInfo_def
        getSymbolAtLocation_def objWritten_def objState_def emptyTypeHelper_def
        newVariableInfo_def NumberVarType_def)
  have q: "arrayOf valuePromise \<and> associatedProperty valuePromise = None
        \<and> getCType (associatedNode valuePromise) objWritten = Inr (Str NumberVarType, objWritten)
        \<and> Str NumberVarType \<noteq> Null
        \<and> typeText objWritten (Str NumberVarType) = Inr ''int16_t''
        \<and> map_of (variablesData objWritten) 3 = Some ?d"
    using g vw by (simp add: valuePromise_def newTypePromise_def typeText_def getText_def
        NumberVarType_def)
  have l: "length (arrays objWritten) = 0"
    by (simp add: objWritten_def objState_def emptyTypeHelper_def)
  have o: "map_of (assignmentTypes ?d) ''struct obj_t *'' = Some (StructRef 0)"
    by (simp add: objData_def newVariableData_def)
  have e: "visitElementAccess objIdent 3 elemInfo objIdent keyIdent [writeNode] objState
             = Inr objWritten"
    using w
    by (simp add: visitElementAccess_def keyIdent_def ebind_def Let_def pushPromise_def
        updVarData_def updAt_def objWritten_def objState_def valuePromise_def objData_def
        newVariableData_def emptyTypeHelper_def)
  note t = dynamicKey_deferred[of objIdent objIdent keyIdent elemInfo "[writeNode]" objState 3 0]
  from t[THEN conjunct1, rule_format, OF c]
  obtain st' where a1: "visitElementAccess objIdent 3 elemInfo objIdent keyIdent [writeNode] objState = Inr st'"
    and a2: "\<forall>d. map_of (variablesData objState) 3 = Some d
                  \<longrightarrow> map_of (variablesData st') 3 =
                        Some (d\<lparr>isDict := True,
                                typePromises := typePromises d
                                  @ [(newTypePromise valueIdent (ElementB False))\<lparr>arrayOf := True\<rparr>]\<rparr>)"
    by blast
  from a2 v have "map_of (variablesData st') 3
      = Some (objData\<lparr>isDict := True, typePromises := [valuePromise]\<rparr>)"
    by (simp add: valuePromise_def objData_def newVariableData_def)
  with a1
  have a: "\<exists>st'. visitElementAccess objIdent 3 elemInfo objIdent keyIdent [writeNode] objState = Inr st'
      \<and> map_of (variablesData st') 3 = Some (objData\<lparr>isDict := True, typePromises := [valuePromise]\<rparr>)"
    by blast
  note u = dynamicKey_deferred[of objIdent objIdent keyIdent elemInfo "[writeNode]" objWritten 3 0]
  from u[THEN conjunct2, rule_format, OF q]
  obtain s' d' where b1: "resolvePromise 3 0 valuePromise objWritten = Inr (True, s')"
    and b2: "deref (arrays s') (length (arrays objWritten)) =
                 Some \<lparr>elementType = Str NumberVarType, capacity = 0, isDynamicArray = True\<rparr>"
    and b3: "map_of (variablesData s') 3 = Some d'"
    and b4: "map_of (assignmentTypes d') (''ARRAY('' @ ''int16_t'' @ '')'')
                 = Some (ArrayRef (length (arrays objWritten)))"
    and b5: "\<forall>k. k \<noteq> ''ARRAY('' @ ''int16_t'' @ '')''
                  \<longrightarrow> map_of (assignmentTypes d') k = map_of (assignmentTypes ?d) k"
    by blast
  from b5 o have b6: "map_of (assignmentTypes d') ''struct obj_t *'' = Some (StructRef 0)"
    by simp
  from b1 b2 b3 b4 b6 l
  have b: "\<exists>st' d'. resolvePromise 3 0 valuePromise objWritten = Inr (True, st')
      \<and> deref (arrays st') 0 = Some \<lparr>elementType = Str NumberVarType, capacity = 0, isDynamicArray = True\<rparr>
      \<and> map_of (variablesData st') 3 = Some d'
      \<and> map_of (assignmentTypes d') ''ARRAY(int16_t)'' = Some (ArrayRef 0)
      \<and> map_of (assignmentTypes d') ''struct obj_t *'' = Some (StructRef 0)"
    by auto
  from e a b show ?thesis by blast
qed

section \<open>The fixed-point resolver: the finalization of a variable\<close>

lemma candidates_set: "candidates d = set (candidateKeys d)"
  by (auto simp: candidates_def candidateKeys_def)

lemma candidateKeys_distinct:
  "distinct (keys (assignmentTypes d)) \<Longrightarrow> distinct (candidateKeys d)"
  by (simp add: candidateKeys_def)

lemma candidates_empty: "candidates d = {} \<longleftrightarrow> candidateKeys d = []"
  by (simp add: candidates_set)

lemma candidates_single:
  assumes "distinct (keys (assignmentTypes d))"
  shows "candidates d = {t} \<longleftrightarrow> candidateKeys d = [t]"
proof
  assume s: "candidates d = {t}"
  from candidateKeys_distinct[OF assms] have "card (set (candidateKeys d)) = length (candidateKeys d)"
    by (rule distinct_card)
  with s have "length (candidateKeys d) = 1" by (simp add: candidates_set)
  then obtain x where "candidateKeys d = [x]" by (cases "candidateKeys d") auto
  with s show "candidateKeys d = [t]" by (simp add: candidates_set)
next
  assume "candidateKeys d = [t]"
  then show "candidates d = {t}" by (simp add: candidates_set)
qed

lemma candidates_many:
  assumes "distinct (keys (assignmentTypes d))" and "2 \<le> card (candidates d)"
  shows "\<exists>a b cs. candidateKeys d = a # b # cs"
proof -
  from candidateKeys_distinct[OF assms(1)] assms(2)
  have "2 \<le> length (candidateKeys d)" by (simp add: candidates_set distinct_card)
  then show ?thesis by (cases "candidateKeys d") (auto simp: Suc_le_length_iff)
qed

lemma fold_dset_map_of:
  "distinct (keys added) \<Longrightarrow>
     map_of (fold (\<lambda>(k, t). dset k t) added props) k = merged added props k"
proof (induction added arbitrary: props)
  case Nil
  then show ?case by (simp add: merged_def)
next
  case (Cons a added)
  obtain k' t' where a: "a = (k', t')" by (cases a)
  from Cons.prems a have d: "distinct (keys added)" and n: "k' \<notin> set (keys added)"
    by (simp_all add: keys_def)
  from n have m: "map_of added k' = None" by (simp add: keys_def map_of_eq_None_iff)
  show ?case
  proof (cases "k = k'")
    case True
    with a Cons.IH[OF d, of "dset k' t' props"] m show ?thesis
      by (simp add: merged_def map_of_dset)
  next
    case False
    with a Cons.IH[OF d, of "dset k' t' props"] show ?thesis
      by (simp add: merged_def map_of_dset_other split: option.splits)
  qed
qed

lemma finalize_none:
  assumes "map_of (variablesData st) k = Some d" "candidates d = {}"
  shows "finalizeVariable k st = Inr (updVarInfo k (\<lambda>v. v\<lparr>type := Str PointerVarType\<rparr>) st)"
  using assms by (simp add: finalizeVariable_def getVarData_def ebind_def candidates_empty)

lemma finalize_many:
  assumes "map_of (variablesData st) k = Some d" "distinct (keys (assignmentTypes d))"
    "2 \<le> card (candidates d)"
  shows "finalizeVariable k st =
     Inr (updVarInfo k (\<lambda>v. v\<lparr>requiresAllocation := True, type := Str UniversalVarType\<rparr>) st)"
proof -
  from candidates_many[OF assms(2,3)] obtain a b cs where "candidateKeys d = a # b # cs"
    by blast
  with assms(1) show ?thesis
    by (simp add: finalizeVariable_def getVarData_def ebind_def)
qed

lemma finalize_single:
  assumes "map_of (variablesData st) k = Some d" "distinct (keys (assignmentTypes d))"
    "candidates d = {t}"
  shows "finalizeVariable k st = finalizeSingle k d (lookupT (assignmentTypes d) t) st"
  using assms candidates_single[OF assms(2), of t]
  by (simp add: finalizeVariable_def getVarData_def ebind_def)

lemma deref_update: "a < length h \<Longrightarrow> deref (h[a := x]) a = Some x"
  by (simp add: deref_def)

text \<open>
  Claim C1, as amended. For a variable with evidence set \<open>d\<close> and binding \<open>v\<close>, let
  the candidates be the keys of the evidence set other than the two fallback texts.
  With no candidate the final type is the opaque pointer; with two or more it is the
  universal fallback and \<open>requiresAllocation\<close> is set; with exactly one it is that
  candidate. A chosen array gets the variable's \<open>isDynamicArray\<close> flag or-ed into its
  own, and \<open>requiresAllocation\<close> is set when that usage flag is set; a chosen
  dictionary sets \<open>requiresAllocation\<close>; a chosen record sets it when an object
  literal was assigned, and every added property is written into the record's
  properties. In no case is \<open>requiresAllocation\<close> cleared, and \<open>isDict\<close> is not read.
\<close>

theorem finalizeVariable_cases:
  assumes vd: "map_of (variablesData st) k = Some d" and vi: "map_of (variables st) k = Some v"
    and dk: "distinct (keys (assignmentTypes d))" and da: "distinct (keys (addedProperties d))"
  shows
   "(candidates d = {} \<longrightarrow>
       (\<exists>st'. finalizeVariable k st = Inr st'
          \<and> map_of (variables st') k = Some (v\<lparr>type := Str PointerVarType\<rparr>)))
    \<and> (2 \<le> card (candidates d) \<longrightarrow>
       (\<exists>st'. finalizeVariable k st = Inr st'
          \<and> map_of (variables st') k
              = Some (v\<lparr>type := Str UniversalVarType, requiresAllocation := True\<rparr>)))
    \<and> (\<forall>t. candidates d = {t} \<longrightarrow>
         (\<forall>s. lookupT (assignmentTypes d) t = Str s \<longrightarrow>
            (\<exists>st'. finalizeVariable k st = Inr st'
               \<and> map_of (variables st') k = Some (v\<lparr>type := Str s\<rparr>)))
       \<and> (\<forall>e. lookupT (assignmentTypes d) t = DictType e \<longrightarrow>
            (\<exists>st'. finalizeVariable k st = Inr st'
               \<and> map_of (variables st') k
                   = Some (v\<lparr>type := DictType e, requiresAllocation := True\<rparr>)))
       \<and> (\<forall>a arr. lookupT (assignmentTypes d) t = ArrayRef a \<and> deref (arrays st) a = Some arr \<longrightarrow>
            (\<exists>st'. finalizeVariable k st = Inr st'
               \<and> map_of (variables st') k
                   = Some (v\<lparr>type := ArrayRef a,
                            requiresAllocation := requiresAllocation v \<or> varIsDynamicArray d\<rparr>)
               \<and> deref (arrays st') a
                   = Some (arr\<lparr>isDynamicArray := isDynamicArray arr \<or> varIsDynamicArray d\<rparr>)))
       \<and> (\<forall>a obj. lookupT (assignmentTypes d) t = StructRef a \<and> deref (structs st) a = Some obj \<longrightarrow>
            (\<exists>st' obj'. finalizeVariable k st = Inr st'
               \<and> map_of (variables st') k
                   = Some (v\<lparr>type := StructRef a,
                            requiresAllocation := requiresAllocation v \<or> objLiteralAssigned d\<rparr>)
               \<and> deref (structs st') a = Some obj'
               \<and> structName obj' = structName obj
               \<and> (\<forall>pn. map_of (properties obj') pn
                          = merged (addedProperties d) (properties obj) pn))))"
proof (intro conjI allI impI)
  assume "candidates d = {}"
  with finalize_none[OF vd] vi
  show "\<exists>st'. finalizeVariable k st = Inr st'
          \<and> map_of (variables st') k = Some (v\<lparr>type := Str PointerVarType\<rparr>)"
    by (simp add: updVarInfo_def map_of_updAt)
next
  assume "2 \<le> card (candidates d)"
  with finalize_many[OF vd dk] vi
  show "\<exists>st'. finalizeVariable k st = Inr st'
          \<and> map_of (variables st') k
              = Some (v\<lparr>type := Str UniversalVarType, requiresAllocation := True\<rparr>)"
    by (simp add: updVarInfo_def map_of_updAt)
next
  fix t s assume "candidates d = {t}" "lookupT (assignmentTypes d) t = Str s"
  with finalize_single[OF vd dk] vi
  show "\<exists>st'. finalizeVariable k st = Inr st'
               \<and> map_of (variables st') k = Some (v\<lparr>type := Str s\<rparr>)"
    by (simp add: updVarInfo_def map_of_updAt)
next
  fix t e assume "candidates d = {t}" "lookupT (assignmentTypes d) t = DictType e"
  with finalize_single[OF vd dk] vi
  show "\<exists>st'. finalizeVariable k st = Inr st'
               \<and> map_of (variables st') k
                   = Some (v\<lparr>type := DictType e, requiresAllocation := True\<rparr>)"
    by (simp add: updVarInfo_def map_of_updAt)
next
  fix t a arr
  assume c: "candidates d = {t}"
    and l: "lookupT (assignmentTypes d) t = ArrayRef a \<and> deref (arrays st) a = Some arr"
  then have lt: "a < length (arrays st)" by (auto simp: deref_def split: if_splits)
  from c l finalize_single[OF vd dk] vi lt
  show "\<exists>st'. finalizeVariable k st = Inr st'
               \<and> map_of (variables st') k
                   = Some (v\<lparr>type := ArrayRef a,
                            requiresAllocation := requiresAllocation v \<or> varIsDynamicArray d\<rparr>)
               \<and> deref (arrays st') a
                   = Some (arr\<lparr>isDynamicArray := isDynamicArray arr \<or> varIsDynamicArray d\<rparr>)"
    by (cases "varIsDynamicArray d")
       (simp_all add: updVarInfo_def map_of_updAt Let_def deref_update)
next
  fix t a obj
  assume c: "candidates d = {t}"
    and l: "lookupT (assignmentTypes d) t = StructRef a \<and> deref (structs st) a = Some obj"
  then have lt: "a < length (structs st)" by (auto simp: deref_def split: if_splits)
  let ?obj' = "obj\<lparr>properties := fold (\<lambda>(k, t). dset k t) (addedProperties d) (properties obj)\<rparr>"
  from c l finalize_single[OF vd dk] vi lt
  have "\<exists>st'. finalizeVariable k st = Inr st'
               \<and> map_of (variables st') k
                   = Some (v\<lparr>type := StructRef a,
                            requiresAllocation := requiresAllocation v \<or> objLiteralAssigned d\<rparr>)
               \<and> deref (structs st') a = Some ?obj'"
    by (cases "objLiteralAssigned d")
       (simp_all add: updVarInfo_def map_of_updAt Let_def deref_update mergeProperties_def
          ebind_def)
  moreover have "structName ?obj' = structName obj" by simp
  moreover have "\<forall>pn. map_of (properties ?obj') pn = merged (addedProperties d) (properties obj) pn"
    using fold_dset_map_of[OF da] by simp
  ultimately
  show "\<exists>st' obj'. finalizeVariable k st = Inr st'
               \<and> map_of (variables st') k
                   = Some (v\<lparr>type := StructRef a,
                            requiresAllocation := requiresAllocation v \<or> objLiteralAssigned d\<rparr>)
               \<and> deref (structs st') a = Some obj'
               \<and> structName obj' = structName obj
               \<and> (\<forall>pn. map_of (properties obj') pn
                          = merged (addedProperties d) (properties obj) pn)"
    by blast
qed

theorem finalizeVariable_cases_witness:
  "\<exists>st' obj'. finalizeVariable 3 recordState = Inr st'
     \<and> map_of (variables st') 3
         = Some ((newVariableInfo ''obj'' 3)\<lparr>type := StructRef 0, requiresAllocation := True\<rparr>)
     \<and> deref (structs st') 0 = Some obj'
     \<and> map_of (properties obj') ''name'' = Some (Str StringVarType)
     \<and> map_of (properties obj') ''id'' = Some (Str NumberVarType)"
proof -
  have vd: "map_of (variablesData recordState) 3 = Some recordData"
    and vi: "map_of (variables recordState) 3 = Some (newVariableInfo ''obj'' 3)"
    by (simp_all add: recordState_def emptyTypeHelper_def)
  have dk: "distinct (keys (assignmentTypes recordData))"
    and da: "distinct (keys (addedProperties recordData))"
    by (simp_all add: recordData_def newVariableData_def keys_def)
  have c: "candidates recordData = {''struct obj_t *''}"
    by (auto simp: candidates_def recordData_def newVariableData_def keys_def
        PointerVarType_def UniversalVarType_def)
  have l: "lookupT (assignmentTypes recordData) ''struct obj_t *'' = StructRef 0
           \<and> deref (structs recordState) 0 = Some recordObject"
    by (simp add: recordData_def newVariableData_def lookupT_def recordState_def
        emptyTypeHelper_def deref_def)
  from finalizeVariable_cases[OF vd vi dk da, THEN conjunct2, THEN conjunct2, rule_format, OF c,
      THEN conjunct2, THEN conjunct2, THEN conjunct2, rule_format, OF l]
  obtain st' obj' where r: "finalizeVariable 3 recordState = Inr st'"
    and v: "map_of (variables st') 3
         = Some ((newVariableInfo ''obj'' 3)\<lparr>type := StructRef 0,
              requiresAllocation := requiresAllocation (newVariableInfo ''obj'' 3)
                \<or> objLiteralAssigned recordData\<rparr>)"
    and o: "deref (structs st') 0 = Some obj'"
    and m: "\<forall>pn. map_of (properties obj') pn
                 = merged (addedProperties recordData) (properties recordObject) pn"
    by blast
  from v have v': "map_of (variables st') 3
         = Some ((newVariableInfo ''obj'' 3)\<lparr>type := StructRef 0, requiresAllocation := True\<rparr>)"
    by (simp add: recordData_def newVariableData_def)
  from m have "map_of (properties obj') ''name'' = Some (Str StringVarType)"
    and "map_of (properties obj') ''id'' = Some (Str NumberVarType)"
    by (simp_all add: merged_def recordData_def newVariableData_def recordObject_def)
  with r v' o show ?thesis by blast
qed

text \<open>
  The claim as stated fails: the variable \<open>a\<close> of the program ends with a dynamic
  array as its type and without \<open>requiresAllocation\<close>, because the dynamic array comes
  from a discharged promise and neither \<open>push\<close> nor \<open>pop\<close> is called on \<open>a\<close>.
\<close>

theorem finalizeVariable_cases_counterexample:
  "finalTypes (figureOutVariablesAndTypes [indexWriteProgram])
     = [(''f'', Str ''void *'', False), (''x'', Str ''int16_t'', False),
        (''a'', ArrayRef 0, False)]
   \<and> finalArrays (figureOutVariablesAndTypes [indexWriteProgram])
     = [\<lparr>elementType = Str ''int16_t'', capacity = 0, isDynamicArray = True\<rparr>]"
  by code_simp

section \<open>Array literals: capacity and growth\<close>










section \<open>The fixed-point resolver: a program on which the loop never ends\<close>

lemma renamingProgram_collected:
  "findVariablesChildren [] [renamingProgram] emptyTypeHelper
     = Inr (stateOf (variablesOf Null Null Null False) False 0)"
  by code_simp

lemma renamingProgram_pass1:
  "resolvePass [0, 23, 32, 56, 74, 86, 94, 103] False
       (stateOf (variablesOf Null Null Null False) False 0)
     = Inr (True, stateOf (variablesOf (Str ''void *'') (Str ''const char *'') (Str ''void *'') False) True 1)"
  by code_simp

lemma renamingProgram_pass2:
  "resolvePass [0, 23, 32, 56, 74, 86, 94, 103] False
       (stateOf (variablesOf (Str ''void *'') (Str ''const char *'') (Str ''void *'') False) True 1)
     = Inr (True, stateOf (variablesOf (Str ''void *'') (Str ''const char *'') (StructRef 2) False) True 2)"
  by code_simp

lemma renamingProgram_pass3:
  "resolvePass [0, 23, 32, 56, 74, 86, 94, 103] False
       (stateOf (variablesOf (Str ''void *'') (Str ''const char *'') (StructRef 2) False) True 2)
     = Inr (True, loopState 3)"
  by code_simp

lemma length_loopTable: "length (loopTable n) = n + 2"
  by (induction n) auto

lemma length_loopRecords: "length (loopRecords n) = 2 * n + 2"
  by (induction n) auto

lemma recordName_inj: "recordName i = recordName j \<Longrightarrow> i = j"
  by (simp add: recordName_def showNat_inj)

lemma recordText_inj: "recordText i = recordText j \<Longrightarrow> i = j"
  by (simp add: recordText_def recordName_def showNat_inj)

lemma recordName_plain [simp]: "\<not> isArrayIndex (recordName j)"
  by (simp add: recordName_def)

lemma recordText_plain [simp]: "\<not> isArrayIndex (recordText j)"
  by (simp add: recordText_def)

lemma recordName_ne: "recordName j \<noteq> ''struct_t''"
  by (auto simp: recordName_def dest!: arg_cong[where f = length])

lemma recordName_0: "recordName j = ''struct_0_t'' \<Longrightarrow> j = 0"
  using showNat_inj[of j 0] by (simp add: recordName_def showNat_0)

lemma keys_loopTable:
  "fst ` set (loopTable n) = {''struct_t'', ''struct_0_t''} \<union> recordName ` {2..<n + 2}"
  by (induction n) (auto simp: atLeastLessThanSuc)

lemma recordName_fresh: "recordName (n + 2) \<notin> fst ` set (loopTable n)"
  by (auto simp: keys_loopTable recordName_ne dest: recordName_0 recordName_inj)

lemma keys_loopEvidence:
  "fst ` set (loopEvidence n) = {''void *''} \<union> recordText ` {2..<n + 2}"
  by (induction n) (auto simp: atLeastLessThanSuc)

lemma recordText_fresh: "recordText (n + 2) \<notin> fst ` set (loopEvidence n)"
  by (auto simp: keys_loopEvidence dest: recordText_inj) (simp add: recordText_def)

lemma dupd_fresh: "k \<notin> fst ` set kvs \<Longrightarrow> dupd k v kvs = kvs @ [(k, v)]"
  by (induction kvs) auto

lemma dupd_last: "k \<notin> fst ` set kvs \<Longrightarrow> dupd k v (kvs @ [(k, w)]) = kvs @ [(k, v)]"
  by (induction kvs) auto

lemma dset_fresh:
  "\<not> isArrayIndex k \<Longrightarrow> k \<notin> fst ` set kvs \<Longrightarrow> dset k v kvs = kvs @ [(k, v)]"
  by (simp add: dupd_fresh)

lemma dset_last:
  "\<not> isArrayIndex k \<Longrightarrow> k \<notin> fst ` set kvs \<Longrightarrow>
     dset k v (kvs @ [(k, w)]) = kvs @ [(k, v)]"
  by (simp add: dupd_last)

lemma nameLoop_upto:
  "i \<le> m \<Longrightarrow> \<forall>j. i \<le> j \<and> j < m \<longrightarrow> map_of us (v @ ''_'' @ showNat j @ ''_t'') \<noteq> None \<Longrightarrow>
     map_of us (v @ ''_'' @ showNat m @ ''_t'') = None \<Longrightarrow> nameLoop us v i = m"
proof (induction "m - i" arbitrary: i)
  case 0
  then have "i = m" by simp
  with 0 show ?case by (simp add: nameLoop.simps[of us v m])
next
  case (Suc d)
  then have lt: "i < m" by simp
  with Suc.prems have "map_of us (v @ ''_'' @ showNat i @ ''_t'') \<noteq> None" by simp
  then have "nameLoop us v i = nameLoop us v (Suc i)" by (subst nameLoop.simps) simp
  moreover have "nameLoop us v (Suc i) = m"
    using Suc.hyps(1)[of "Suc i"] Suc.hyps(2) Suc.prems lt by simp
  ultimately show ?case by simp
qed

lemma nameLoop_loopTable: "nameLoop (loopTable n) ''struct'' 2 = n + 2"
proof (rule nameLoop_upto)
  show "2 \<le> n + 2" by simp
  show "\<forall>j. 2 \<le> j \<and> j < n + 2 \<longrightarrow> map_of (loopTable n) (''struct'' @ ''_'' @ showNat j @ ''_t'') \<noteq> None"
  proof (intro allI impI)
    fix j assume j: "2 \<le> j \<and> j < n + 2"
    then have "recordName j \<in> fst ` set (loopTable n)" by (simp add: keys_loopTable)
    then show "map_of (loopTable n) (''struct'' @ ''_'' @ showNat j @ ''_t'') \<noteq> None"
      by (simp add: map_of_eq_None_iff recordName_def)
  qed
  show "map_of (loopTable n) (''struct'' @ ''_'' @ showNat (n + 2) @ ''_t'') = None"
    using recordName_fresh[of n] by (simp add: map_of_eq_None_iff recordName_def)
qed

lemma struct_t_taken: "map_of (loopTable n) ''struct_t'' \<noteq> None"
  by (simp add: map_of_eq_None_iff keys_loopTable)

lemma chooseStructName_default:
  "userStructs st = loopTable n \<Longrightarrow> chooseStructName st None = recordName (n + 2)"
  by (simp add: chooseStructName_def length_loopTable recordName_def)

lemma chooseStructName_struct:
  "userStructs st = loopTable n \<Longrightarrow> chooseStructName st (Some ''struct'') = recordName (n + 2)"
  using struct_t_taken[of n] by (simp add: chooseStructName_def nameLoop_loopTable recordName_def)

lemma loopTable_entries:
  "(s, a) \<in> set (loopTable n) \<Longrightarrow>
     (s = ''struct_t'' \<and> a = 0) \<or> (s = ''struct_0_t'' \<and> a = 1)
     \<or> (\<exists>j<n. s = recordName (j + 2) \<and> a = 2 * j + 3)"
  by (induction n) (auto simp: less_Suc_eq)

lemma loopRecords_nth:
  "j < n \<Longrightarrow> loopRecords n ! (2 * j + 2) = innerRecord (j + 2)
     \<and> loopRecords n ! (2 * j + 3) = outerRecord (j + 2) (2 * j + 2)"
proof (induction n)
  case 0
  then show ?case by simp
next
  case (Suc n)
  show ?case
  proof (cases "j < n")
    case True
    with Suc.IH show ?thesis by (simp add: nth_append length_loopRecords)
  next
    case False
    with Suc.prems have "j = n" by simp
    then show ?thesis by (simp add: nth_append length_loopRecords)
  qed
qed

lemma loopRecords_first:
  "loopRecords n ! 0 = \<lparr>structName = ''struct struct_t *'', properties = [(''w'', Str ''int16_t'')]\<rparr>
   \<and> loopRecords n ! Suc 0 = \<lparr>structName = ''struct struct_0_t *'', properties = [(''struct'', StructRef 0)]\<rparr>"
  by (induction n) (auto simp: nth_append length_loopRecords)

lemma findStructure_differ:
  "\<forall>(s, a) \<in> set us. \<exists>obj body. deref (structs st) a = Some obj
       \<and> getStructureBodyString st (properties obj) = Inr body \<and> body \<noteq> code \<Longrightarrow>
   findStructure st code us = Inr None"
  by (induction us) (auto simp: ebind_def)

text \<open>The body texts of the records in a store that begins with \<open>loopRecords n\<close>.\<close>

lemma deref_loopRecords:
  assumes "structs st = loopRecords n @ xs"
  shows "deref (structs st) 0 = Some \<lparr>structName = ''struct struct_t *'', properties = [(''w'', Str ''int16_t'')]\<rparr>"
    and "deref (structs st) (Suc 0) = Some \<lparr>structName = ''struct struct_0_t *'', properties = [(''struct'', StructRef 0)]\<rparr>"
    and "j < n \<Longrightarrow> deref (structs st) (2 * j + 2) = Some (innerRecord (j + 2))"
    and "j < n \<Longrightarrow> deref (structs st) (2 * j + 3) = Some (outerRecord (j + 2) (2 * j + 2))"
  using assms loopRecords_first[of n] loopRecords_nth[of j n]
  by (auto simp: deref_def nth_append length_loopRecords)

lemma body_first:
  "getStructureBodyString st [(''w'', Str ''int16_t'')]
     = Inr (''{'' @ newline @ ''    int16_t w;'' @ newline @ ''};'' @ newline)"
  by (simp add: getStructureBodyString_def ebind_def)

lemma body_inner:
  "getStructureBodyString st [(''q'', Str ''int16_t'')]
     = Inr (''{'' @ newline @ ''    int16_t q;'' @ newline @ ''};'' @ newline)"
  by (simp add: getStructureBodyString_def ebind_def)

lemma body_outer:
  assumes "deref (structs st) a = Some obj"
  shows "getStructureBodyString st [(''struct'', StructRef a)]
     = Inr (''{'' @ newline @ ''    '' @ structName obj @ '' struct;'' @ newline @ ''};'' @ newline)"
  using assms by (simp add: getStructureBodyString_def ebind_def typeText_def getText_def)

lemma find_inner:
  assumes "userStructs st = loopTable n" "structs st = loopRecords n"
  shows "findStructure st (''{'' @ newline @ ''    int16_t q;'' @ newline @ ''};'' @ newline)
           (loopTable n) = Inr None"
proof (rule findStructure_differ, clarify)
  fix s a assume "(s, a) \<in> set (loopTable n)"
  from loopTable_entries[OF this]
  consider "a = 0" | "a = 1" | j where "j < n" "a = 2 * j + 3" by auto
  then show "\<exists>obj body. deref (structs st) a = Some obj
       \<and> getStructureBodyString st (properties obj) = Inr body
       \<and> body \<noteq> ''{'' @ newline @ ''    int16_t q;'' @ newline @ ''};'' @ newline"
  proof cases
    case 1
    with deref_loopRecords(1)[of st n "[]"] assms(2) show ?thesis
      by (simp add: body_first)
  next
    case 2
    with deref_loopRecords(1,2)[of st n "[]"] assms(2) show ?thesis
      by (simp add: body_outer)
  next
    case 3
    with deref_loopRecords(3,4)[of st n "[]" j] assms(2) show ?thesis
      by (simp add: body_outer outerRecord_def innerRecord_def recordText_def)
  qed
qed

lemma register_inner:
  assumes "userStructs st = loopTable n" "structs st = loopRecords n"
  shows "generateStructure shapeQ (Some ''struct'') st
     = Inr (StructRef (2 * n + 2),
            st\<lparr>structs := loopRecords n @ [innerRecord (n + 2)],
               userStructs := loopTable n @ [(recordName (n + 2), 2 * n + 2)]\<rparr>)"
  using assms find_inner[OF assms] recordName_fresh[of n]
  by (simp add: generateStructure.simps shapeQ_def convertType.simps NumberVarType_def
      UniversalVarType_def ebind_def registerStructure_def body_inner chooseStructName_struct length_loopRecords
      dupd_fresh innerRecord_def recordText_def)

lemma find_outer:
  assumes "userStructs st = loopTable n @ [(recordName (n + 2), 2 * n + 2)]"
    "structs st = loopRecords n @ [innerRecord (n + 2)]"
  shows "findStructure st
           (''{'' @ newline @ ''    '' @ recordText (n + 2) @ '' struct;'' @ newline @ ''};'' @ newline)
           (loopTable n @ [(recordName (n + 2), 2 * n + 2)]) = Inr None"
proof (rule findStructure_differ, clarify)
  fix s a assume "(s, a) \<in> set (loopTable n @ [(recordName (n + 2), 2 * n + 2)])"
  then have "(s, a) \<in> set (loopTable n) \<or> a = 2 * n + 2" by auto
  with loopTable_entries[of s a n]
  consider "a = 0" | "a = 1" | j where "j < n" "a = 2 * j + 3" | "a = 2 * n + 2" by auto
  then show "\<exists>obj body. deref (structs st) a = Some obj
       \<and> getStructureBodyString st (properties obj) = Inr body
       \<and> body \<noteq> ''{'' @ newline @ ''    '' @ recordText (n + 2) @ '' struct;'' @ newline @ ''};'' @ newline"
  proof cases
    case 1
    with deref_loopRecords(1)[OF assms(2)] show ?thesis
      by (simp add: body_first recordText_def)
  next
    case 2
    with deref_loopRecords(1,2)[OF assms(2)] show ?thesis
      by (auto simp: body_outer recordText_def recordName_def dest!: arg_cong[where f = length])
  next
    case 3
    with deref_loopRecords(3,4)[OF assms(2), of j] recordText_inj[of "j + 2" "n + 2"] show ?thesis
      by (auto simp: body_outer outerRecord_def innerRecord_def)
  next
    case 4
    have "deref (structs st) (2 * n + 2) = Some (innerRecord (n + 2))"
      using assms(2) by (simp add: deref_def nth_append length_loopRecords)
    with 4 show ?thesis by (simp add: innerRecord_def body_inner recordText_def)
  qed
qed

lemma register_outer:
  assumes "userStructs st = loopTable n" "structs st = loopRecords n"
  shows "generateStructure shapeStructQ None st
     = Inr (StructRef (2 * n + 3),
            st\<lparr>structs := loopRecords (Suc n), userStructs := loopTable (Suc n)\<rparr>)"
proof -
  let ?st1 = "st\<lparr>structs := loopRecords n @ [innerRecord (n + 2)],
               userStructs := loopTable n @ [(recordName (n + 2), 2 * n + 2)]\<rparr>"
  have d: "deref (structs ?st1) (2 * n + 2) = Some (innerRecord (n + 2))"
    by (simp add: deref_def nth_append length_loopRecords)
  have b: "getStructureBodyString ?st1 [(''struct'', StructRef (2 * n + 2))]
     = Inr (''{'' @ newline @ ''    '' @ recordText (n + 2) @ '' struct;'' @ newline @ ''};'' @ newline)"
    using body_outer[OF d] by (simp add: innerRecord_def)
  have f: "findStructure ?st1
           (''{'' @ newline @ ''    '' @ recordText (n + 2) @ '' struct;'' @ newline @ ''};'' @ newline)
           (loopTable n @ [(recordName (n + 2), 2 * n + 2)]) = Inr None"
    by (rule find_outer) simp_all
  have r: "registerStructure (recordName (n + 2)) [(''struct'', StructRef (2 * n + 2))] ?st1
     = Inr (StructRef (2 * n + 3),
            st\<lparr>structs := loopRecords (Suc n), userStructs := loopTable (Suc n)\<rparr>)"
    using recordName_fresh[of n] b f
    by (simp add: registerStructure_def ebind_def length_loopRecords dupd_last
        outerRecord_def recordText_def)
  have c: "convertType shapeQ (Some ''struct'') st = Inr (StructRef (2 * n + 2), ?st1)"
    using register_inner[OF assms] by (simp add: convertType.simps shapeQ_def)
  show ?thesis
    using assms(1) r c
    by (simp add: generateStructure.simps shapeStructQ_def ebind_def
        UniversalVarType_def chooseStructName_default)
qed

lemma getCType_promisedNode:
  assumes "userStructs st = loopTable n" "structs st = loopRecords n"
  shows "getCType promisedNode st
     = Inr (StructRef (2 * n + 2),
            st\<lparr>structs := loopRecords (Suc n), userStructs := loopTable (Suc n)\<rparr>)"
proof -
  have c: "convertType shapeStructQ None st = Inr (StructRef (2 * n + 3),
            st\<lparr>structs := loopRecords (Suc n), userStructs := loopTable (Suc n)\<rparr>)"
    using register_outer[OF assms] by (simp add: convertType.simps shapeStructQ_def)
  have d: "deref (loopRecords (Suc n)) (2 * n + 3) = Some (outerRecord (n + 2) (2 * n + 2))"
    by (simp add: deref_def nth_append length_loopRecords)
  show ?thesis
    using d c
    by (simp add: promisedNode_def ni_def getTypeAtLocation_def ebind_def structProperty_def
        nodeText_def slice1_def lookupP_def outerRecord_def del: loopRecords.simps loopTable.simps)
qed

lemma candidateKeys_loop:
  "filter (\<lambda>t. t \<noteq> PointerVarType \<and> t \<noteq> UniversalVarType) (keys (loopEvidence n))
     = map (\<lambda>j. recordText (j + 2)) [0..<n]"
  by (induction n)
     (auto simp: keys_def PointerVarType_def UniversalVarType_def recordText_def recordName_def)

lemma finalize_others:
  "k \<in> {0, 23, 32, 56, 74, 94, 103} \<Longrightarrow> finalizeVariable k (loopState n) = Inr (loopState n)"
  by (auto simp: finalizeVariable_def getVarData_def loopState_def stateOf_def loopData_def
      plainData_def newVariableData_def candidateKeys_def keys_def ebind_def updVarInfo_def
      updAt_def variablesOf_def variable_def lookupT_def PointerVarType_def UniversalVarType_def)

lemma finalize_x:
  assumes "2 \<le> n"
  shows "finalizeVariable 86 (loopState n) = Inr (loopState n)"
proof -
  from assms obtain m where n: "n = Suc (Suc m)"
    by (metis add_2_eq_Suc le_Suc_ex)
  have "\<exists>a b cs. map (\<lambda>j. recordText (j + 2)) [0..<n] = a # b # cs"
    using n by (simp add: upt_conv_Cons del: upt_Suc)
  then obtain a b cs where c: "candidateKeys (plainData TsAny (loopEvidence n)
             \<lparr>parameterIndex := Some 0, parameterFuncDeclPos := Some 75\<rparr>) = a # b # cs"
    using candidateKeys_loop[of n]
    by (auto simp: candidateKeys_def plainData_def simp del: upt_Suc)
  have d: "map_of (variablesData (loopState n)) 86
     = Some (plainData TsAny (loopEvidence n)\<lparr>parameterIndex := Some 0, parameterFuncDeclPos := Some 75\<rparr>)"
    by (simp add: loopState_def stateOf_def loopData_def)
  show ?thesis
    using c d
    by (simp add: finalizeVariable_def getVarData_def ebind_def)
       (simp add: loopState_def stateOf_def updVarInfo_def updAt_def variablesOf_def variable_def
          UniversalVarType_def)
qed

lemma tryResolve_others:
  "k \<in> {0, 23, 32, 56, 74} \<Longrightarrow> tryResolvePromises k (loopState n) = Inr (False, loopState n)"
  by (auto simp: tryResolvePromises_def resolveParameter_def getVarData_def loopState_def
      stateOf_def loopData_def plainData_def newVariableData_def keys_def ebind_def)

lemma tryResolve_x: "tryResolvePromises 86 (loopState n) = Inr (True, loopState (Suc n))"
proof -
  let ?d = "plainData TsAny (loopEvidence n)\<lparr>parameterIndex := Some 0, parameterFuncDeclPos := Some 75\<rparr>"
  let ?p = "newTypePromise promisedNode (ElementB False)\<lparr>resolved := True\<rparr>"
  let ?st1 = "(loopState n)\<lparr>structs := loopRecords (Suc n), userStructs := loopTable (Suc n)\<rparr>"
  have g: "getCType promisedNode (loopState n) = Inr (StructRef (2 * n + 2), ?st1)"
    by (rule getCType_promisedNode) (simp_all add: loopState_def stateOf_def)
  have e: "evidenceType (P ?p) (loopState n) = Inr (StructRef (2 * n + 2), P ?p, ?st1)"
    using g by (simp add: newTypePromise_def ebind_def)
  have t: "typeText ?st1 (StructRef (2 * n + 2)) = Inr (recordText (n + 2))"
    by (simp add: typeText_def getText_def deref_def nth_append length_loopRecords innerRecord_def)
  have "recordText (n + 2) \<notin> set objectPrototypeMembers"
    by (simp add: objectPrototypeMembers_def recordText_def)
  then have l: "lookupP (loopEvidence n) (recordText (n + 2)) = Null"
    using recordText_fresh[of n] by (simp add: lookupP_def map_of_eq_None_iff[THEN iffD2])
  have s: "dset (recordText (n + 2)) (StructRef (2 * n + 2)) (loopEvidence n) = loopEvidence (Suc n)"
    using recordText_fresh[of n] by (simp add: dupd_fresh)
  have r: "resolveParameter 86 (loopState n) = Inr (True, loopState (Suc n))"
    using e t l s
    by (simp add: resolveParameter_def getVarData_def ebind_def getTypeString_def
          loopState_def stateOf_def loopData_def plainData_def newVariableData_def updAt_def
          setAssignmentType_def updVarData_def
        del: loopRecords.simps loopTable.simps loopEvidence.simps)
  show ?thesis
    using r
    by (simp add: tryResolvePromises_def ebind_def)
       (simp add: loopState_def stateOf_def keys_def getVarData_def loopData_def plainData_def
          newVariableData_def ebind_def del: loopRecords.simps loopTable.simps loopEvidence.simps)
qed

lemma resolvePass_loop:
  assumes "2 \<le> n"
  shows "resolvePass [0, 23, 32, 56, 74, 86, 94, 103] False (loopState n)
     = Inr (True, loopState (Suc n))"
  using assms
  by (simp add: finalize_others finalize_x tryResolve_others tryResolve_x ebind_def)

lemma keys_loopState: "keys (variables (loopState n)) = [0, 23, 32, 56, 74, 86, 94, 103]"
  by (simp add: loopState_def stateOf_def variablesOf_def keys_def)

lemma loop_never_ends:
  "2 \<le> n \<Longrightarrow> resolvePromisesAndFinalizeTypes (loopState n) = None"
proof (rule ccontr)
  assume n: "2 \<le> n" and "resolvePromisesAndFinalizeTypes (loopState n) \<noteq> None"
  then obtain y where y: "resolvePromisesAndFinalizeTypes (loopState n) = Some y" by auto
  have "\<forall>m\<ge>2. loopState n \<noteq> loopState m"
  proof (rule resolvePromisesAndFinalizeTypes.raw_induct
           [where P = "\<lambda>st y. \<forall>m\<ge>2. st \<noteq> loopState m", OF _ y])
    fix loop st y
    assume IH: "\<And>st y. loop st = Some y \<Longrightarrow> \<forall>m\<ge>2. st \<noteq> loopState m"
      and step: "(case resolvePass (keys (variables st)) False st of
                    Inl e \<Rightarrow> Some (Inl e)
                  | Inr (somePromisesAreResolved, st1) \<Rightarrow>
                      if somePromisesAreResolved then loop st1 else Some (Inr st1)) = Some y"
    show "\<forall>m\<ge>2. st \<noteq> loopState m"
    proof (intro allI impI notI)
      fix m :: nat assume m: "2 \<le> m" and st: "st = loopState m"
      from step have "loop (loopState (Suc m)) = Some y"
        by (simp add: st keys_loopState resolvePass_loop[OF m] del: resolvePass.simps)
      from IH[OF this] m show False by (auto dest: spec[where x = "Suc m"])
    qed
  qed
  with n show False by blast
qed


text \<open>
  Claim C3 does not hold of the code. The loop of \<open>resolvePromisesAndFinalizeTypes\<close>
  does not end on \<open>renamingProgram\<close>: collecting the program raises nothing, and
  \<open>None\<close> is the value of a loop that never returns. Every pass evaluates the
  promised argument \<open>(g())[xstructx]\<close> again. Its receiver is converted by
  \<open>generateStructure\<close>, which chooses the default name \<open>struct_N_t\<close>, \<open>N\<close> the
  number of registered records, before it converts the property \<open>struct\<close>. The
  record of that property is named after its identifier: \<open>struct_t\<close> and the names
  \<open>struct_j_t\<close> of the earlier passes are taken, so it gets the first free name,
  which is the same \<open>struct_N_t\<close>. The outer record is then stored under that name
  and replaces the nested record in the table (the default name is not tested for a
  collision, as the name made from an identifier is). The next pass therefore finds
  neither shape, registers both again under the next number, and the parameter \<open>x\<close>
  gets an evidence entry with a new text in every pass.
\<close>

theorem resolvePromisesAndFinalizeTypes_diverges:
  "figureOutVariablesAndTypes [renamingProgram] = None"
proof -
  let ?s0 = "stateOf (variablesOf Null Null Null False) False 0"
  let ?s1 = "stateOf (variablesOf (Str ''void *'') (Str ''const char *'') (Str ''void *'') False) True 1"
  let ?s2 = "stateOf (variablesOf (Str ''void *'') (Str ''const char *'') (StructRef 2) False) True 2"
  have k: "\<And>vars r n. keys (variables (stateOf (variablesOf t tk tx ax) r n)) = [0, 23, 32, 56, 74, 86, 94, 103]"
    for t tk tx ax
    by (simp add: stateOf_def variablesOf_def keys_def)
  have "figureOutVariablesAndTypes [renamingProgram] = resolvePromisesAndFinalizeTypes ?s0"
    by (simp add: figureOutVariablesAndTypes_def renamingProgram_collected
        del: findVariablesChildren.simps findVariablesRecursively.simps)
  also have "\<dots> = resolvePromisesAndFinalizeTypes ?s1"
    by (subst resolvePromisesAndFinalizeTypes.simps) (simp only: k renamingProgram_pass1 sum.case prod.case if_True)
  also have "\<dots> = resolvePromisesAndFinalizeTypes ?s2"
    by (subst resolvePromisesAndFinalizeTypes.simps) (simp only: k renamingProgram_pass2 sum.case prod.case if_True)
  also have "\<dots> = resolvePromisesAndFinalizeTypes (loopState 3)"
    by (subst resolvePromisesAndFinalizeTypes.simps) (simp only: k renamingProgram_pass3 sum.case prod.case if_True)
  also have "\<dots> = None"
    by (rule loop_never_ends) simp
  finally show ?thesis .
qed

end
